theory Spec2Isabelle
  imports Main "HOL-Library.Multiset"
begin

section \<open>Python values used by the manager\<close>

text \<open>
  The exceptions the modelled code can raise. \<open>ValueError\<close> is what \<open>int()\<close> raises,
  \<open>IndexError\<close> is raised explicitly by the enrichment code, \<open>MultipleResultsFound\<close> is
  what SQLAlchemy's \<open>one_or_none()\<close> raises on more than one row, \<open>KeyError\<close> is a missing
  dictionary key, \<open>AttributeError\<close> a missing attribute and \<open>ImportError\<close> a name that a
  \<open>from ... import\<close> statement does not find.
\<close>

datatype error =
  ValueError | IndexError | MultipleResultsFound | KeyError | AttributeError | ImportError

text \<open>
  A cell of the numeric gene-id column of the data frame. A pandas numeric column holds
  integers, or floats once a value is missing; \<open>IntCell n\<close> is a cell on which \<open>int()\<close>
  returns \<open>n\<close> (an integer, or a finite float with integral part \<open>n\<close>), \<open>NaNCell\<close> is the
  missing value, on which \<open>int()\<close> raises \<open>ValueError\<close>.
\<close>

datatype cell = IntCell int | NaNCell

fun py_int :: "cell \<Rightarrow> error + int" where
  "py_int (IntCell n) = Inr n"
| "py_int NaNCell = Inl ValueError"

definition digit_char :: "nat \<Rightarrow> char" where
  "digit_char d = ''0123456789'' ! d"

fun nat_digits :: "nat \<Rightarrow> string" where
  "nat_digits n =
     (if n < 10 then [digit_char n] else nat_digits (n div 10) @ [digit_char (n mod 10)])"

declare nat_digits.simps [simp del]

definition py_str_int :: "int \<Rightarrow> string" where
  \<comment> \<open>\<open>str(n)\<close> for a Python integer: decimal digits, with a leading minus sign.\<close>
  "py_str_int i = (if i < 0 then CHR ''-'' # nat_digits (nat (- i)) else nat_digits (nat i))"

definition lower_char :: "char \<Rightarrow> char" where
  "lower_char c =
     (case map_of (zip ''ABCDEFGHIJKLMNOPQRSTUVWXYZ'' ''abcdefghijklmnopqrstuvwxyz'') c of
        Some l \<Rightarrow> l
      | None \<Rightarrow> c)"

definition py_lower :: "string \<Rightarrow> string" where
  \<comment> \<open>\<open>s.lower()\<close>; strings are taken to be ASCII, where only A to Z change.\<close>
  "py_lower s = map lower_char s"


section \<open>The entity model\<close>

text \<open>
  The five entity kinds. An entity holds the entities it references by value: inside
  \<open>populate\<close> an object is never changed once another object points to it (a Target gets
  its HGNC fields right after it is built).
\<close>

record species =
  species_name :: string

record mirna =
  mirna_name :: string
  mirna_species :: species

record target =
  entrez_id :: string
  target_species :: species
  target_name :: string
  hgnc_symbol :: "string option"
  hgnc_id :: "string option"

record interaction =
  mirtarbase_id :: string
  int_mirna :: mirna
  int_target :: target

record evidence =
  ev_experiment :: string
  support :: string
  reference :: int
  ev_interaction :: interaction

text \<open>
  A record of the gene-authority registry (\<open>bio2bel_hgnc.models.HGNC\<close>, an external
  library): the fields that \<open>populate\<close> reads. The numeric gene identifier \<open>entrez\<close> is
  optional; the symbol and the identifier are present in every record, as the entries of
  the specification's cross-reference map have them.
\<close>

record hgnc =
  g_entrez :: "string option"
  g_symbol :: string
  g_identifier :: int

text \<open>One row of the source table, the ten fields that \<open>df.itertuples()\<close> yields.\<close>

record row =
  r_index :: nat
  r_mirtarbase_id :: string
  r_mirna_name :: string
  r_mirna_species :: string
  r_gene_name :: string
  r_entrez_id :: cell
  r_target_species :: string
  r_exp :: string
  r_sup_type :: string
  r_pubmed :: int


section \<open>The relational store and the session\<close>

record store =
  species_tbl :: "species list"
  mirna_tbl :: "mirna list"
  target_tbl :: "target list"
  interaction_tbl :: "interaction list"
  evidence_tbl :: "evidence list"

definition empty_store :: store where
  "empty_store = \<lparr>species_tbl = [], mirna_tbl = [], target_tbl = [],
                   interaction_tbl = [], evidence_tbl = []\<rparr>"

text \<open>
  The session: the objects added and not yet committed (\<open>session.new\<close>), and the store
  that a commit has made visible.
\<close>

record session =
  pending :: store
  committed :: store

definition add_species :: "species \<Rightarrow> session \<Rightarrow> session" where
  "add_species x s = s\<lparr>pending := (pending s)\<lparr>species_tbl := species_tbl (pending s) @ [x]\<rparr>\<rparr>"

definition add_mirna :: "mirna \<Rightarrow> session \<Rightarrow> session" where
  "add_mirna x s = s\<lparr>pending := (pending s)\<lparr>mirna_tbl := mirna_tbl (pending s) @ [x]\<rparr>\<rparr>"

definition add_target :: "target \<Rightarrow> session \<Rightarrow> session" where
  "add_target x s = s\<lparr>pending := (pending s)\<lparr>target_tbl := target_tbl (pending s) @ [x]\<rparr>\<rparr>"

definition add_interaction :: "interaction \<Rightarrow> session \<Rightarrow> session" where
  "add_interaction x s =
     s\<lparr>pending := (pending s)\<lparr>interaction_tbl := interaction_tbl (pending s) @ [x]\<rparr>\<rparr>"

definition add_evidence :: "evidence \<Rightarrow> session \<Rightarrow> session" where
  "add_evidence x s =
     s\<lparr>pending := (pending s)\<lparr>evidence_tbl := evidence_tbl (pending s) @ [x]\<rparr>\<rparr>"

definition commit :: "session \<Rightarrow> session" where
  "commit s =
     \<lparr>pending = empty_store,
      committed =
        \<lparr>species_tbl = species_tbl (committed s) @ species_tbl (pending s),
         mirna_tbl = mirna_tbl (committed s) @ mirna_tbl (pending s),
         target_tbl = target_tbl (committed s) @ target_tbl (pending s),
         interaction_tbl = interaction_tbl (committed s) @ interaction_tbl (pending s),
         evidence_tbl = evidence_tbl (committed s) @ evidence_tbl (pending s)\<rparr>\<rparr>"


section \<open>Population\<close>

text \<open>
  \<open>_build_entrez_map\<close>: the dictionary comprehension over the registry, keeping the
  models whose \<open>entrez\<close> field is truthy (neither \<open>None\<close> nor the empty string); a later
  model overwrites an earlier one with the same key.
\<close>

definition build_entrez_map :: "hgnc list \<Rightarrow> (string \<rightharpoonup> hgnc)" where
  "build_entrez_map models =
     fold (\<lambda>model emap.
             (case g_entrez model of
                None \<Rightarrow> emap
              | Some e \<Rightarrow> if e \<noteq> [] then emap(e \<mapsto> model) else emap))
          models Map.empty"

text \<open>The four dictionaries of \<open>populate\<close> and the session, threaded through the loop.\<close>

record loop_state =
  name_mirna :: "string \<rightharpoonup> mirna"
  target_set :: "string \<rightharpoonup> target"
  species_set :: "string \<rightharpoonup> species"
  interaction_set :: "(string \<times> string) \<rightharpoonup> interaction"
  sess :: session

definition init_state :: "session \<Rightarrow> loop_state" where
  "init_state s = \<lparr>name_mirna = Map.empty, target_set = Map.empty, species_set = Map.empty,
                    interaction_set = Map.empty, sess = s\<rparr>"

text \<open>
  The species lookup, written twice in the source (for the miRNA and for the target):
  \<open>species = species_set.get(n)\<close>, and when it is \<open>None\<close> a new Species is stored in the
  dictionary and added to the session.
\<close>

definition resolve_species :: "string \<Rightarrow> loop_state \<Rightarrow> species \<times> loop_state" where
  "resolve_species n st =
     (case species_set st n of
        Some sp \<Rightarrow> (sp, st)
      | None \<Rightarrow>
          (let sp = \<lparr>species_name = n\<rparr>
           in (sp, st\<lparr>species_set := (species_set st)(n \<mapsto> sp),
                      sess := add_species sp (sess st)\<rparr>)))"

definition resolve_mirna :: "row \<Rightarrow> loop_state \<Rightarrow> mirna \<times> loop_state" where
  "resolve_mirna r st =
     (case name_mirna st (r_mirna_name r) of
        Some m \<Rightarrow> (m, st)
      | None \<Rightarrow>
          (let (sp, st1) = resolve_species (r_mirna_species r) st;
               m = \<lparr>mirna_name = r_mirna_name r, mirna_species = sp\<rparr>
           in (m, st1\<lparr>name_mirna := (name_mirna st1)(r_mirna_name r \<mapsto> m),
                      sess := add_mirna m (sess st1)\<rparr>)))"

definition resolve_target ::
  "(string \<rightharpoonup> hgnc) \<Rightarrow> row \<Rightarrow> string \<Rightarrow> loop_state \<Rightarrow> target \<times> loop_state" where
  "resolve_target emap r eid st =
     (case target_set st eid of
        Some t \<Rightarrow> (t, st)
      | None \<Rightarrow>
          (let (sp, st1) = resolve_species (r_target_species r) st;
               t0 = \<lparr>entrez_id = eid, target_species = sp, target_name = r_gene_name r,
                     hgnc_symbol = None, hgnc_id = None\<rparr>;
               t = (case emap eid of
                      None \<Rightarrow> t0
                    | Some g_first \<Rightarrow>
                        t0\<lparr>hgnc_symbol := Some (g_symbol g_first),
                           hgnc_id := Some (py_str_int (g_identifier g_first))\<rparr>)
           in (t, st1\<lparr>target_set := (target_set st1)(eid \<mapsto> t),
                      sess := add_target t (sess st1)\<rparr>)))"

text \<open>
  The body of the loop of \<open>populate\<close>. The conversion \<open>str(int(entrez_id))\<close> comes first,
  so a row that raises has changed nothing.
\<close>

definition populate_row :: "(string \<rightharpoonup> hgnc) \<Rightarrow> row \<Rightarrow> loop_state \<Rightarrow> error + loop_state" where
  "populate_row emap r st =
     (case py_int (r_entrez_id r) of
        Inl e \<Rightarrow> Inl e
      | Inr n \<Rightarrow>
          (let eid = py_str_int n;
               interaction_key = (r_mirna_name r, eid);
               (ia, st3) =
                 (case interaction_set st interaction_key of
                    Some ia \<Rightarrow> (ia, st)
                  | None \<Rightarrow>
                      (let (m, st1) = resolve_mirna r st;
                           (t, st2) = resolve_target emap r eid st1;
                           ia = \<lparr>mirtarbase_id = r_mirtarbase_id r, int_mirna = m,
                                 int_target = t\<rparr>
                       in (ia, st2\<lparr>interaction_set :=
                                      (interaction_set st2)(interaction_key \<mapsto> ia),
                                    sess := add_interaction ia (sess st2)\<rparr>)));
               new_evidence = \<lparr>ev_experiment = r_exp r, support = r_sup_type r,
                               reference = r_pubmed r, ev_interaction = ia\<rparr>
           in Inr (st3\<lparr>sess := add_evidence new_evidence (sess st3)\<rparr>)))"

text \<open>
  The loop over the rows: an exception ends it, with the state as the rows before the
  failing one left it.
\<close>

fun populate_loop ::
  "(string \<rightharpoonup> hgnc) \<Rightarrow> row list \<Rightarrow> loop_state \<Rightarrow> error option \<times> loop_state" where
  "populate_loop emap [] st = (None, st)"
| "populate_loop emap (r # rs) st =
     (case populate_row emap r st of
        Inl e \<Rightarrow> (Some e, st)
      | Inr st' \<Rightarrow> populate_loop emap rs st')"

text \<open>
  \<open>Manager.populate\<close>: \<open>registry\<close> is what \<open>hgnc_manager.hgnc()\<close> returns and \<open>df\<close> the rows
  of \<open>get_data(source)\<close>. The commit is the last statement, reached only when no row has
  raised.
\<close>

definition populate :: "hgnc list \<Rightarrow> row list \<Rightarrow> session \<Rightarrow> error option \<times> session" where
  "populate registry df s =
     (let emap = build_entrez_map registry;
          (res, st) = populate_loop emap df (init_state s)
      in (case res of
            Some e \<Rightarrow> (Some e, sess st)
          | None \<Rightarrow> (None, commit (sess st))))"

text \<open>A session on a database with nothing pending, as a new Manager has it.\<close>

definition fresh_session :: "store \<Rightarrow> session" where
  "fresh_session db = \<lparr>pending = empty_store, committed = db\<rparr>"

text \<open>
  The key under which a row looks its Interaction up, when its gene id converts, and the
  same pair read off a stored Interaction.
\<close>

definition row_key :: "row \<Rightarrow> (string \<times> string) option" where
  "row_key r =
     (case py_int (r_entrez_id r) of
        Inl e \<Rightarrow> None
      | Inr n \<Rightarrow> Some (r_mirna_name r, py_str_int n))"

definition interaction_key :: "interaction \<Rightarrow> string \<times> string" where
  "interaction_key ia = (mirna_name (int_mirna ia), entrez_id (int_target ia))"


section \<open>Graphs\<close>

text \<open>
  The graph abstraction the manager consumes. A node is its attribute dictionary:
  the function marker, and the optional namespace, name and identifier entries.
  \<open>graph.nodes(data=True)\<close> is read as the list of the nodes present when the loop
  starts; \<open>add_qualified_edge\<close> adds its two end nodes when they are not in the graph
  yet and appends one edge.
\<close>

record node =
  n_function :: string
  n_namespace :: "string option"
  n_name :: "string option"
  n_identifier :: "string option"

record edge =
  e_source :: node
  e_target :: node
  e_relation :: string
  e_evidence :: string
  e_citation :: string
  e_annotations :: "(string \<times> string) list"

record graph =
  g_name :: string
  g_version :: string
  g_nodes :: "node list"
  g_edges :: "edge list"
  namespace_url :: "string \<rightharpoonup> string"
  namespace_pattern :: "string \<rightharpoonup> string"

definition RNA :: string where "RNA = ''RNA''"
definition MIRNA :: string where "MIRNA = ''miRNA''"
definition DIRECTLY_DECREASES :: string where "DIRECTLY_DECREASES = ''directlyDecreases''"

definition add_node :: "node \<Rightarrow> graph \<Rightarrow> graph" where
  "add_node n g = (if n \<in> set (g_nodes g) then g else g\<lparr>g_nodes := g_nodes g @ [n]\<rparr>)"

definition add_qualified_edge ::
  "node \<Rightarrow> node \<Rightarrow> string \<Rightarrow> string \<Rightarrow> string \<Rightarrow> (string \<times> string) list \<Rightarrow> graph \<Rightarrow> graph" where
  "add_qualified_edge u v rel ev cit ann g =
     (let g1 = add_node v (add_node u g)
      in g1\<lparr>g_edges := g_edges g1 @
               [\<lparr>e_source = u, e_target = v, e_relation = rel, e_evidence = ev,
                 e_citation = cit, e_annotations = ann\<rparr>]\<rparr>)"


section \<open>Queries\<close>

fun one_or_none :: "'a list \<Rightarrow> error + 'a option" where
  "one_or_none [] = Inr None"
| "one_or_none [x] = Inr (Some x)"
| "one_or_none (x # y # zs) = Inl MultipleResultsFound"

definition query_target_by_entrez_id :: "store \<Rightarrow> string \<Rightarrow> error + target option" where
  "query_target_by_entrez_id db eid =
     one_or_none (filter (\<lambda>t. entrez_id t = eid) (target_tbl db))"

definition query_target_by_hgnc_symbol :: "store \<Rightarrow> string \<Rightarrow> error + target option" where
  "query_target_by_hgnc_symbol db hs =
     one_or_none (filter (\<lambda>t. hgnc_symbol t = Some hs) (target_tbl db))"

definition query_target_by_hgnc_identifier :: "store \<Rightarrow> string \<Rightarrow> error + target option" where
  "query_target_by_hgnc_identifier db hid =
     one_or_none (filter (\<lambda>t. hgnc_id t = Some hid) (target_tbl db))"

definition list_evidences :: "store \<Rightarrow> evidence list" where
  "list_evidences db = evidence_tbl db"

definition count_evidences :: "store \<Rightarrow> nat" where
  "count_evidences db = length (evidence_tbl db)"

text \<open>
  Modelled from the spec: the relationships \<open>target.interactions\<close> and
  \<open>interaction.evidences\<close> of the entity classes (models.py is not among the sources).
  A Target has the Interactions that reference it, an Interaction the Evidence records
  that reference it, in the order of the store.
\<close>

definition target_interactions :: "store \<Rightarrow> target \<Rightarrow> interaction list" where
  "target_interactions db t = filter (\<lambda>ia. int_target ia = t) (interaction_tbl db)"

definition interaction_evidences :: "store \<Rightarrow> interaction \<Rightarrow> evidence list" where
  "interaction_evidences db ia = filter (\<lambda>ev. ev_interaction ev = ia) (evidence_tbl db)"

text \<open>Python's truth test on the result of \<open>data.get(...)\<close>: neither \<open>None\<close> nor empty.\<close>

definition truthy :: "string option \<Rightarrow> bool" where
  "truthy x = (case x of None \<Rightarrow> False | Some s \<Rightarrow> s \<noteq> [])"

definition enrich_rna_handle_hgnc ::
  "store \<Rightarrow> string option \<Rightarrow> string option \<Rightarrow> error + target option" where
  "enrich_rna_handle_hgnc db ident nm =
     (if truthy ident then query_target_by_hgnc_identifier db (the ident)
      else if truthy nm then query_target_by_hgnc_symbol db (the nm)
      else Inl IndexError)"

definition enrich_rna_handle_entrez ::
  "store \<Rightarrow> string option \<Rightarrow> string option \<Rightarrow> error + target option" where
  "enrich_rna_handle_entrez db ident nm =
     (if truthy ident then query_target_by_entrez_id db (the ident)
      else if truthy nm then query_target_by_entrez_id db (the nm)
      else Inl IndexError)"


section \<open>Enrichment of RNA nodes\<close>

text \<open>
  \<open>Manager.enrich_rnas\<close>. The set \<open>ven\<close> is \<open>VALID_ENTREZ_NAMESPACES\<close> of
  \<open>bio2bel_entrez\<close>, and \<open>as_bel\<close> the method of Mirna that gives its graph node;
  both are parameters. \<open>rna_lookup\<close> is the first half of the loop body, from the test
  of the function marker to the choice of the handler; \<open>Inr None\<close> is every path that
  ends in \<open>continue\<close> (another function, no namespace, a namespace that is not mapped,
  no Target found).
\<close>

definition rna_lookup :: "string set \<Rightarrow> store \<Rightarrow> node \<Rightarrow> error + target option" where
  "rna_lookup ven db data =
     (if n_function data \<noteq> RNA then Inr None
      else case n_namespace data of
        None \<Rightarrow> Inr None
      | Some ns \<Rightarrow>
          (let ident = n_identifier data; nm = n_name data
           in if py_lower ns = ''hgnc'' then enrich_rna_handle_hgnc db ident nm
              else if py_lower ns \<in> ven then enrich_rna_handle_entrez db ident nm
              else Inr None))"

definition mti_annotations :: "evidence \<Rightarrow> (string \<times> string) list" where
  "mti_annotations ev = [(''Experiment'', ev_experiment ev), (''SupportType'', support ev)]"

text \<open>The two nested loops over \<open>target.interactions\<close> and \<open>interaction.evidences\<close>.\<close>

definition add_mti_edges :: "(mirna \<Rightarrow> node) \<Rightarrow> store \<Rightarrow> node \<Rightarrow> target \<Rightarrow> graph \<Rightarrow> graph" where
  "add_mti_edges as_bel db n t g =
     fold (\<lambda>ia g1.
             fold (\<lambda>ev g2.
                     add_qualified_edge (as_bel (int_mirna ia)) n DIRECTLY_DECREASES
                       (support ev) (py_str_int (reference ev)) (mti_annotations ev) g2)
                  (interaction_evidences db ia) g1)
          (target_interactions db t) g"

definition enrich_rnas_step ::
  "string set \<Rightarrow> (mirna \<Rightarrow> node) \<Rightarrow> store \<Rightarrow> node \<Rightarrow> graph \<Rightarrow> error + graph" where
  "enrich_rnas_step ven as_bel db n g =
     (case rna_lookup ven db n of
        Inl e \<Rightarrow> Inl e
      | Inr None \<Rightarrow> Inr g
      | Inr (Some t) \<Rightarrow> Inr (add_mti_edges as_bel db n t g))"

fun enrich_rnas_loop ::
  "string set \<Rightarrow> (mirna \<Rightarrow> node) \<Rightarrow> store \<Rightarrow> node list \<Rightarrow> graph \<Rightarrow> error option \<times> graph" where
  "enrich_rnas_loop ven as_bel db [] g = (None, g)"
| "enrich_rnas_loop ven as_bel db (n # ns) g =
     (case enrich_rnas_step ven as_bel db n g of
        Inl e \<Rightarrow> (Some e, g)
      | Inr g' \<Rightarrow> enrich_rnas_loop ven as_bel db ns g')"

definition enrich_rnas ::
  "string set \<Rightarrow> (mirna \<Rightarrow> node) \<Rightarrow> store \<Rightarrow> graph \<Rightarrow> error option \<times> graph" where
  "enrich_rnas ven as_bel db g = enrich_rnas_loop ven as_bel db (g_nodes g) g"

text \<open>
  The function \<open>enrich_rnas\<close> of the module enrich.py. It reads
  \<open>interaction.mirna.serialize_to_bel()\<close> and \<open>interaction.evidence\<close>, which are taken as
  the parameters \<open>serialize_to_bel\<close> and \<open>evidence_of\<close>. The outer option of the lookup
  is \<open>None\<close> on the path that ends in \<open>continue\<close> before any query; when the query finds
  no Target, the warning reads \<open>data[NAME]\<close>, a \<open>KeyError\<close> on a node without a name.
\<close>

definition module_rna_lookup :: "store \<Rightarrow> node \<Rightarrow> string \<Rightarrow> error + target option option" where
  "module_rna_lookup db data ns =
     (if ns = ''HGNC'' then
        (case n_identifier data of
           Some i \<Rightarrow> map_sum id Some (query_target_by_hgnc_identifier db i)
         | None \<Rightarrow>
             (case n_name data of
                Some nm \<Rightarrow> map_sum id Some (query_target_by_hgnc_symbol db nm)
              | None \<Rightarrow> Inl IndexError))
      else if ns \<in> {''EGID'', ''ENTREZ''} then
        (case n_identifier data of
           Some i \<Rightarrow> map_sum id Some (query_target_by_entrez_id db i)
         | None \<Rightarrow>
             (case n_name data of
                Some nm \<Rightarrow> map_sum id Some (query_target_by_entrez_id db nm)
              | None \<Rightarrow> Inl IndexError))
      else Inr None)"

definition module_enrich_rnas_step ::
  "(mirna \<Rightarrow> node) \<Rightarrow> (interaction \<Rightarrow> evidence) \<Rightarrow> store \<Rightarrow> node \<Rightarrow> graph \<Rightarrow> error + graph" where
  "module_enrich_rnas_step serialize_to_bel evidence_of db n g =
     (if n_function n \<noteq> RNA then Inr g
      else case n_namespace n of
        None \<Rightarrow> Inr g
      | Some ns \<Rightarrow>
          (case module_rna_lookup db n ns of
             Inl e \<Rightarrow> Inl e
           | Inr None \<Rightarrow> Inr g
           | Inr (Some None) \<Rightarrow> (case n_name n of None \<Rightarrow> Inl KeyError | Some nm \<Rightarrow> Inr g)
           | Inr (Some (Some t)) \<Rightarrow>
               Inr (fold (\<lambda>ia g1.
                            add_qualified_edge (serialize_to_bel (int_mirna ia)) n
                              DIRECTLY_DECREASES (support (evidence_of ia))
                              (py_str_int (reference (evidence_of ia)))
                              (mti_annotations (evidence_of ia)) g1)
                         (target_interactions db t) g)))"

fun module_enrich_rnas_loop ::
  "(mirna \<Rightarrow> node) \<Rightarrow> (interaction \<Rightarrow> evidence) \<Rightarrow> store \<Rightarrow> node list \<Rightarrow> graph
     \<Rightarrow> error option \<times> graph" where
  "module_enrich_rnas_loop stb evo db [] g = (None, g)"
| "module_enrich_rnas_loop stb evo db (n # ns) g =
     (case module_enrich_rnas_step stb evo db n g of
        Inl e \<Rightarrow> (Some e, g)
      | Inr g' \<Rightarrow> module_enrich_rnas_loop stb evo db ns g')"

definition module_enrich_rnas ::
  "(mirna \<Rightarrow> node) \<Rightarrow> (interaction \<Rightarrow> evidence) \<Rightarrow> store \<Rightarrow> graph \<Rightarrow> error option \<times> graph" where
  "module_enrich_rnas stb evo db g = module_enrich_rnas_loop stb evo db (g_nodes g) g"


section \<open>Enrichment of miRNA nodes\<close>

text \<open>
  The loop body of \<open>Manager.enrich_mirnas\<close>, on the set \<open>mirtarbase_names\<close>. In the
  mirtarbase branch the name is added when the node has one, and the \<open>raise\<close> that
  follows is not under an \<open>else\<close>.
\<close>

definition enrich_mirnas_step :: "string set \<Rightarrow> node \<Rightarrow> string set \<Rightarrow> error option \<times> string set" where
  "enrich_mirnas_step ven data names =
     (if n_function data \<noteq> MIRNA \<or> n_namespace data = None then (None, names)
      else
        (let ns = the (n_namespace data)
         in if py_lower ns = ''mirtarbase'' then
              (Some IndexError,
               (case n_name data of Some nm \<Rightarrow> insert nm names | None \<Rightarrow> names))
            else if py_lower ns \<in> {''mirbase'', ''hgnc''} \<union> ven then (None, names)
            else (None, names)))"

fun enrich_mirnas_loop :: "string set \<Rightarrow> node list \<Rightarrow> string set \<Rightarrow> error option \<times> string set" where
  "enrich_mirnas_loop ven [] names = (None, names)"
| "enrich_mirnas_loop ven (n # ns) names =
     (case enrich_mirnas_step ven n names of
        (Some e, names') \<Rightarrow> (Some e, names')
      | (None, names') \<Rightarrow> enrich_mirnas_loop ven ns names')"

text \<open>
  Modelled from the spec: the join of Mirna, Interaction and Evidence filtered by
  \<open>Mirna.filter_name_in\<close> (models.py is not among the sources): the triples of a Mirna
  whose name is in the set, an Interaction of it and an Evidence of that Interaction.
\<close>

definition mirna_join :: "store \<Rightarrow> string set \<Rightarrow> (mirna \<times> interaction \<times> evidence) list" where
  "mirna_join db names =
     [(m, ia, ev). m \<leftarrow> mirna_tbl db, mirna_name m \<in> names,
                   ia \<leftarrow> interaction_tbl db, int_mirna ia = m,
                   ev \<leftarrow> evidence_tbl db, ev_interaction ev = ia]"

text \<open>\<open>add_to_graph\<close> is the method of Evidence, a parameter here.\<close>

definition enrich_mirnas ::
  "string set \<Rightarrow> (evidence \<Rightarrow> graph \<Rightarrow> graph) \<Rightarrow> store \<Rightarrow> graph \<Rightarrow> error option \<times> graph" where
  "enrich_mirnas ven add_to_graph db g =
     (case enrich_mirnas_loop ven (g_nodes g) {} of
        (Some e, names) \<Rightarrow> (Some e, g)
      | (None, names) \<Rightarrow>
          if names = {} then (None, g)
          else (None, fold (\<lambda>(m, ia, ev) g1. add_to_graph ev g1) (mirna_join db names) g))"


section \<open>Serialization\<close>

text \<open>
  \<open>Manager.to_bel\<close>. The two namespaces that \<open>upload_bel_namespace()\<close> returns are given
  as pairs of keyword and URL, \<open>MIRBASE\<close> is the constant of models.py, and
  \<open>add_to_graph\<close> the method of Evidence.
\<close>

definition to_bel ::
  "string \<times> string \<Rightarrow> string \<times> string \<Rightarrow> string \<Rightarrow> (evidence \<Rightarrow> graph \<Rightarrow> graph) \<Rightarrow> store
     \<Rightarrow> graph" where
  "to_bel hgnc_namespace entrez_namespace mirbase add_to_graph db =
     (let g0 = \<lparr>g_name = ''miRTarBase'', g_version = ''1.0.0'', g_nodes = [], g_edges = [],
                namespace_url = Map.empty, namespace_pattern = Map.empty\<rparr>;
          g1 = g0\<lparr>namespace_url := (namespace_url g0)(fst hgnc_namespace \<mapsto> snd hgnc_namespace)\<rparr>;
          g2 = g1\<lparr>namespace_url :=
                    (namespace_url g1)(fst entrez_namespace \<mapsto> snd entrez_namespace)\<rparr>;
          g3 = g2\<lparr>namespace_pattern := (namespace_pattern g2)(mirbase \<mapsto> ''^.*$'')\<rparr>
      in fold add_to_graph (list_evidences db) g3)"

text \<open>
  Modelled from the spec: \<open>Evidence.add_to_graph\<close> of models.py, which is not among the
  sources. It emits the edge of the enrichment contract for one Evidence: from the node
  of the Mirna of its Interaction to the node of the Target of its Interaction, with
  relation directly-decreases, the support as evidence text, the stringified reference
  as citation and the annotations Experiment and SupportType. The two node
  representations are parameters.
\<close>

definition evidence_edge :: "(mirna \<Rightarrow> node) \<Rightarrow> (target \<Rightarrow> node) \<Rightarrow> evidence \<Rightarrow> edge" where
  "evidence_edge as_bel target_as_bel ev =
     \<lparr>e_source = as_bel (int_mirna (ev_interaction ev)),
      e_target = target_as_bel (int_target (ev_interaction ev)),
      e_relation = DIRECTLY_DECREASES, e_evidence = support ev,
      e_citation = py_str_int (reference ev), e_annotations = mti_annotations ev\<rparr>"

definition evidence_add_to_graph ::
  "(mirna \<Rightarrow> node) \<Rightarrow> (target \<Rightarrow> node) \<Rightarrow> evidence \<Rightarrow> graph \<Rightarrow> graph" where
  "evidence_add_to_graph as_bel target_as_bel ev g =
     add_qualified_edge (as_bel (int_mirna (ev_interaction ev)))
       (target_as_bel (int_target (ev_interaction ev)))
       DIRECTLY_DECREASES (support ev) (py_str_int (reference ev)) (mti_annotations ev) g"


section \<open>The package initializer\<close>

text \<open>
  The names a module binds at its top level, in the order of the source, and the
  statement \<open>from module import names\<close>, which raises \<open>ImportError\<close> at the first name
  that the module does not bind. \<open>star\<close> is what \<open>from pybel.constants import *\<close> brings
  into enrich.py.
\<close>

definition enrich_module_names :: "string list \<Rightarrow> string list" where
  "enrich_module_names star = [''logging''] @ star @ [''Manager'', ''log'', ''enrich_rnas'']"

definition manager_module_names :: "string list" where
  "manager_module_names =
     [''logging'', ''time'', ''AbstractManager'', ''BELManagerMixin'', ''FlaskMixin'',
      ''bio2bel_entrez'', ''VALID_ENTREZ_NAMESPACES'', ''bio2bel_hgnc'', ''BELGraph'',
      ''DIRECTLY_DECREASES'', ''FUNCTION'', ''IDENTIFIER'', ''MIRNA'', ''NAME'', ''NAMESPACE'',
      ''RNA'', ''tqdm'', ''MODULE_NAME'', ''Base'', ''Evidence'', ''Interaction'', ''MIRBASE'',
      ''Mirna'', ''Species'', ''Target'', ''get_data'', ''log'', ''_build_entrez_map'',
      ''_get_name'', ''Manager'']"

fun import_from :: "string list \<Rightarrow> string list \<Rightarrow> error + string list" where
  "import_from module_names [] = Inr []"
| "import_from module_names (n # ns) =
     (if n \<in> set module_names then map_sum id ((#) n) (import_from module_names ns)
      else Inl ImportError)"

definition package_init :: "string list \<Rightarrow> error + string list" where
  "package_init star =
     (case import_from (enrich_module_names star) [''enrich_mirnas'', ''enrich_rnas''] of
        Inl e \<Rightarrow> Inl e
      | Inr from_enrich \<Rightarrow>
          (case import_from manager_module_names [''Manager''] of
             Inl e \<Rightarrow> Inl e
           | Inr from_manager \<Rightarrow>
               Inr (from_enrich @ from_manager @
                    [''__version__'', ''__title__'', ''__description__'', ''__url__'',
                     ''__author__'', ''__email__'', ''__license__'', ''__copyright__''])))"


section \<open>Invariants of the population loop\<close>

text \<open>
  The dictionaries of names hold entities under their own key: a Mirna under its name, a
  Target under its gene id.
\<close>

definition names_ok :: "loop_state \<Rightarrow> bool" where
  "names_ok st \<longleftrightarrow>
     (\<forall>n m. name_mirna st n = Some m \<longrightarrow> mirna_name m = n) \<and>
     (\<forall>e t. target_set st e = Some t \<longrightarrow> entrez_id t = e)"

text \<open>
  The dictionary of Interactions and the pending Interactions are the same entities, each
  under its key and added once, and every pending Evidence points to one of them.
\<close>

definition inter_ok :: "loop_state \<Rightarrow> bool" where
  "inter_ok st \<longleftrightarrow>
     (\<forall>k ia. interaction_set st k = Some ia \<longrightarrow>
        interaction_key ia = k \<and> ia \<in> set (interaction_tbl (pending (sess st)))) \<and>
     (\<forall>ia \<in> set (interaction_tbl (pending (sess st))).
        interaction_set st (interaction_key ia) = Some ia) \<and>
     distinct (interaction_tbl (pending (sess st))) \<and>
     (\<forall>ev \<in> set (evidence_tbl (pending (sess st))).
        ev_interaction ev \<in> set (interaction_tbl (pending (sess st))))"

text \<open>The pending Evidence records whose Interaction has a given key.\<close>

definition key_count :: "string \<times> string \<Rightarrow> loop_state \<Rightarrow> nat" where
  "key_count k st =
     length (filter (\<lambda>ev. interaction_key (ev_interaction ev) = k)
               (evidence_tbl (pending (sess st))))"

text \<open>
  The HGNC fields of a Target agree with the cross-reference map: both set from the
  entry of its gene id, or both absent when the map has no entry.
\<close>

definition hgnc_fields_ok :: "(string \<rightharpoonup> hgnc) \<Rightarrow> target \<Rightarrow> bool" where
  "hgnc_fields_ok emap t =
     (case emap (entrez_id t) of
        Some g \<Rightarrow> hgnc_symbol t = Some (g_symbol g) \<and>
                  hgnc_id t = Some (py_str_int (g_identifier g))
      | None \<Rightarrow> hgnc_symbol t = None \<and> hgnc_id t = None)"

text \<open>
  The Targets that a run on the store \<open>db\<close> has created: committed behind those of \<open>db\<close>
  after a run that succeeded, still pending after one that raised.
\<close>

definition run_targets :: "store \<Rightarrow> session \<Rightarrow> target list" where
  "run_targets db s' = drop (length (target_tbl db)) (target_tbl (committed s')) @
                       target_tbl (pending s')"


section \<open>Edges of the enrichment contract\<close>

text \<open>
  The edge for one Evidence of one Interaction, towards the node \<open>n\<close> being enriched:
  from the node of the Mirna, with relation directly-decreases, the support as evidence
  text, the stringified reference as citation and the two annotations.
\<close>

definition mti_edge :: "(mirna \<Rightarrow> node) \<Rightarrow> node \<Rightarrow> interaction \<Rightarrow> evidence \<Rightarrow> edge" where
  "mti_edge as_bel n ia ev =
     \<lparr>e_source = as_bel (int_mirna ia), e_target = n, e_relation = DIRECTLY_DECREASES,
      e_evidence = support ev, e_citation = py_str_int (reference ev),
      e_annotations = [(''Experiment'', ev_experiment ev), (''SupportType'', support ev)]\<rparr>"

text \<open>All the edges for a Target: those of each of its Interactions, one per Evidence.\<close>

definition mti_edges :: "(mirna \<Rightarrow> node) \<Rightarrow> store \<Rightarrow> node \<Rightarrow> target \<Rightarrow> edge list" where
  "mti_edges as_bel db n t =
     concat (map (\<lambda>ia. map (mti_edge as_bel n ia) (interaction_evidences db ia))
                 (target_interactions db t))"

text \<open>The edges that one pass of the loop of \<open>enrich_rnas\<close> adds for a node.\<close>

definition node_edges :: "string set \<Rightarrow> (mirna \<Rightarrow> node) \<Rightarrow> store \<Rightarrow> node \<Rightarrow> edge list" where
  "node_edges ven as_bel db n =
     (case rna_lookup ven db n of
        Inr (Some t) \<Rightarrow> mti_edges as_bel db n t
      | _ \<Rightarrow> [])"


section \<open>Example data\<close>

text \<open>The row of the specification's example, a second row for the same pair, and others.\<close>

definition ex_row1 :: row where
  "ex_row1 = \<lparr>r_index = 0, r_mirtarbase_id = ''MIRT000005'', r_mirna_name = ''mmu-miR-124-3p'',
     r_mirna_species = ''Mus musculus'', r_gene_name = ''CXCR4'', r_entrez_id = IntCell 7852,
     r_target_species = ''Homo sapiens'', r_exp = ''Reporter assay'',
     r_sup_type = ''Functional MTI'', r_pubmed = 18619591\<rparr>"

definition ex_row2 :: row where
  "ex_row2 = \<lparr>r_index = 1, r_mirtarbase_id = ''MIRT999999'', r_mirna_name = ''mmu-miR-124-3p'',
     r_mirna_species = ''Mus musculus'', r_gene_name = ''CXCR4'', r_entrez_id = IntCell 7852,
     r_target_species = ''Homo sapiens'', r_exp = ''Western blot'',
     r_sup_type = ''Functional MTI (Weak)'', r_pubmed = 20000000\<rparr>"

definition ex_row3 :: row where
  "ex_row3 = \<lparr>r_index = 2, r_mirtarbase_id = ''MIRT000012'', r_mirna_name = ''hsa-miR-20a-5p'',
     r_mirna_species = ''Homo sapiens'', r_gene_name = ''XYZ1'', r_entrez_id = IntCell 999,
     r_target_species = ''Homo sapiens'', r_exp = ''qRT-PCR'',
     r_sup_type = ''Functional MTI'', r_pubmed = 17000000\<rparr>"

definition ex_bad :: row where
  "ex_bad = \<lparr>r_index = 3, r_mirtarbase_id = ''MIRT000099'', r_mirna_name = ''hsa-miR-1'',
     r_mirna_species = ''Homo sapiens'', r_gene_name = ''ABC'', r_entrez_id = NaNCell,
     r_target_species = ''Homo sapiens'', r_exp = ''qRT-PCR'',
     r_sup_type = ''Functional MTI'', r_pubmed = 17000001\<rparr>"

definition ex_registry :: "hgnc list" where
  "ex_registry = [\<lparr>g_entrez = Some ''7852'', g_symbol = ''CXCR4'', g_identifier = 2561\<rparr>,
                  \<lparr>g_entrez = None, g_symbol = ''NOGENE'', g_identifier = 77\<rparr>]"

definition ex_target1 :: target where
  "ex_target1 = \<lparr>entrez_id = ''7852'', target_species = \<lparr>species_name = ''Homo sapiens''\<rparr>,
     target_name = ''CXCR4'', hgnc_symbol = Some ''CXCR4'', hgnc_id = Some ''2561''\<rparr>"

text \<open>The store that the rows 1, 3 and 2 leave, written out.\<close>

definition ex_mirna1 :: mirna where
  "ex_mirna1 = \<lparr>mirna_name = ''mmu-miR-124-3p'',
                 mirna_species = \<lparr>species_name = ''Mus musculus''\<rparr>\<rparr>"

definition ex_mirna3 :: mirna where
  "ex_mirna3 = \<lparr>mirna_name = ''hsa-miR-20a-5p'',
                 mirna_species = \<lparr>species_name = ''Homo sapiens''\<rparr>\<rparr>"

definition ex_target3 :: target where
  "ex_target3 = \<lparr>entrez_id = ''999'', target_species = \<lparr>species_name = ''Homo sapiens''\<rparr>,
     target_name = ''XYZ1'', hgnc_symbol = None, hgnc_id = None\<rparr>"

definition ex_interaction1 :: interaction where
  "ex_interaction1 = \<lparr>mirtarbase_id = ''MIRT000005'', int_mirna = ex_mirna1,
                       int_target = ex_target1\<rparr>"

definition ex_interaction3 :: interaction where
  "ex_interaction3 = \<lparr>mirtarbase_id = ''MIRT000012'', int_mirna = ex_mirna3,
                       int_target = ex_target3\<rparr>"

definition ex_evidence1 :: evidence where
  "ex_evidence1 = \<lparr>ev_experiment = ''Reporter assay'', support = ''Functional MTI'',
                    reference = 18619591, ev_interaction = ex_interaction1\<rparr>"

definition ex_evidence2 :: evidence where
  "ex_evidence2 = \<lparr>ev_experiment = ''Western blot'', support = ''Functional MTI (Weak)'',
                    reference = 20000000, ev_interaction = ex_interaction1\<rparr>"

definition ex_evidence3 :: evidence where
  "ex_evidence3 = \<lparr>ev_experiment = ''qRT-PCR'', support = ''Functional MTI'',
                    reference = 17000000, ev_interaction = ex_interaction3\<rparr>"

definition ex_db :: store where
  "ex_db = \<lparr>species_tbl = [\<lparr>species_name = ''Mus musculus''\<rparr>,
                            \<lparr>species_name = ''Homo sapiens''\<rparr>],
             mirna_tbl = [ex_mirna1, ex_mirna3],
             target_tbl = [ex_target1, ex_target3],
             interaction_tbl = [ex_interaction1, ex_interaction3],
             evidence_tbl = [ex_evidence1, ex_evidence3, ex_evidence2]\<rparr>"

text \<open>The same store with its Evidence records listed in another order.\<close>

definition ex_db_permuted :: store where
  "ex_db_permuted = ex_db\<lparr>evidence_tbl := [ex_evidence2, ex_evidence1, ex_evidence3]\<rparr>"

text \<open>Values for the parameters: the namespace set, and node representations.\<close>

definition ex_ven :: "string set" where
  "ex_ven = {''egid'', ''eg'', ''entrez'', ''ncbigene''}"

definition ex_as_bel :: "mirna \<Rightarrow> node" where
  "ex_as_bel m = \<lparr>n_function = MIRNA, n_namespace = Some ''mirbase'',
                   n_name = Some (mirna_name m), n_identifier = None\<rparr>"

definition ex_target_as_bel :: "target \<Rightarrow> node" where
  "ex_target_as_bel t = \<lparr>n_function = RNA, n_namespace = Some ''ncbigene'',
                          n_name = Some (target_name t), n_identifier = Some (entrez_id t)\<rparr>"

text \<open>Graph nodes: RNA nodes under several namespaces, and a miRNA node.\<close>

definition ex_rna_hgnc :: node where
  "ex_rna_hgnc = \<lparr>n_function = RNA, n_namespace = Some ''HGNC'', n_name = Some ''CXCR4'',
                   n_identifier = None\<rparr>"

definition ex_rna_hgnc_id :: node where
  "ex_rna_hgnc_id = \<lparr>n_function = RNA, n_namespace = Some ''hgnc'', n_name = None,
                      n_identifier = Some ''2561''\<rparr>"

definition ex_rna_hgnc_bare :: node where
  "ex_rna_hgnc_bare = \<lparr>n_function = RNA, n_namespace = Some ''HGNC'', n_name = None,
                        n_identifier = None\<rparr>"

definition ex_rna_hgnc_empty_id :: node where
  "ex_rna_hgnc_empty_id = \<lparr>n_function = RNA, n_namespace = Some ''HGNC'',
                            n_name = Some ''CXCR4'', n_identifier = Some []\<rparr>"

definition ex_rna_entrez :: node where
  "ex_rna_entrez = \<lparr>n_function = RNA, n_namespace = Some ''EGID'', n_name = Some ''999'',
                     n_identifier = None\<rparr>"

definition ex_rna_entrez_empty_id :: node where
  "ex_rna_entrez_empty_id = \<lparr>n_function = RNA, n_namespace = Some ''EGID'',
                              n_name = Some ''7852'', n_identifier = Some []\<rparr>"

definition ex_rna_other :: node where
  "ex_rna_other = \<lparr>n_function = RNA, n_namespace = Some ''MGI'', n_name = Some ''Cxcr4'',
                    n_identifier = None\<rparr>"

definition ex_mirna_node :: node where
  "ex_mirna_node = \<lparr>n_function = MIRNA, n_namespace = Some ''mirtarbase'',
                     n_name = Some ''mmu-miR-124-3p'', n_identifier = None\<rparr>"

definition ex_graph :: "node list \<Rightarrow> graph" where
  "ex_graph ns = \<lparr>g_name = ''example'', g_version = ''0'', g_nodes = ns, g_edges = [],
                   namespace_url = Map.empty, namespace_pattern = Map.empty\<rparr>"


section \<open>Properties of the population loop\<close>

lemmas populate_eval =
  populate_def populate_row_def resolve_mirna_def resolve_target_def resolve_species_def
  build_entrez_map_def init_state_def fresh_session_def empty_store_def commit_def
  add_species_def add_mirna_def add_target_def add_interaction_def add_evidence_def
  py_str_int_def nat_digits.simps digit_char_def Let_def row_key_def interaction_key_def
  ex_row1_def ex_row2_def ex_row3_def ex_bad_def ex_registry_def

lemma resolve_species_frame:
  "name_mirna (snd (resolve_species n st)) = name_mirna st"
  "target_set (snd (resolve_species n st)) = target_set st"
  "interaction_set (snd (resolve_species n st)) = interaction_set st"
  "mirna_tbl (pending (sess (snd (resolve_species n st)))) = mirna_tbl (pending (sess st))"
  "target_tbl (pending (sess (snd (resolve_species n st)))) = target_tbl (pending (sess st))"
  "interaction_tbl (pending (sess (snd (resolve_species n st)))) =
     interaction_tbl (pending (sess st))"
  "evidence_tbl (pending (sess (snd (resolve_species n st)))) = evidence_tbl (pending (sess st))"
  "committed (sess (snd (resolve_species n st))) = committed (sess st)"
  by (simp_all add: resolve_species_def add_species_def Let_def split: option.splits)

lemma resolve_mirna_frame:
  "target_set (snd (resolve_mirna r st)) = target_set st"
  "interaction_set (snd (resolve_mirna r st)) = interaction_set st"
  "target_tbl (pending (sess (snd (resolve_mirna r st)))) = target_tbl (pending (sess st))"
  "interaction_tbl (pending (sess (snd (resolve_mirna r st)))) =
     interaction_tbl (pending (sess st))"
  "evidence_tbl (pending (sess (snd (resolve_mirna r st)))) = evidence_tbl (pending (sess st))"
  "committed (sess (snd (resolve_mirna r st))) = committed (sess st)"
  by (simp_all add: resolve_mirna_def add_mirna_def Let_def case_prod_beta
      resolve_species_frame split: option.splits)

lemma resolve_mirna_names:
  assumes "names_ok st"
  shows "names_ok (snd (resolve_mirna r st))"
    and "mirna_name (fst (resolve_mirna r st)) = r_mirna_name r"
  using assms
  by (auto simp: resolve_mirna_def add_mirna_def Let_def case_prod_beta names_ok_def
      resolve_species_frame split: option.splits)

lemma resolve_target_frame:
  "name_mirna (snd (resolve_target emap r eid st)) = name_mirna st"
  "interaction_set (snd (resolve_target emap r eid st)) = interaction_set st"
  "mirna_tbl (pending (sess (snd (resolve_target emap r eid st)))) =
     mirna_tbl (pending (sess st))"
  "interaction_tbl (pending (sess (snd (resolve_target emap r eid st)))) =
     interaction_tbl (pending (sess st))"
  "evidence_tbl (pending (sess (snd (resolve_target emap r eid st)))) =
     evidence_tbl (pending (sess st))"
  "committed (sess (snd (resolve_target emap r eid st))) = committed (sess st)"
  by (simp_all add: resolve_target_def add_target_def Let_def case_prod_beta
      resolve_species_frame split: option.splits)

lemma resolve_target_names:
  assumes "names_ok st"
  shows "names_ok (snd (resolve_target emap r eid st))"
    and "entrez_id (fst (resolve_target emap r eid st)) = eid"
  using assms
  by (auto simp: resolve_target_def add_target_def Let_def case_prod_beta names_ok_def
      resolve_species_frame split: option.splits)

lemma populate_row_committed:
  assumes "populate_row emap r st = Inr st'"
  shows "committed (sess st') = committed (sess st)"
  using assms
  by (auto simp: populate_row_def add_interaction_def add_evidence_def Let_def case_prod_beta
      resolve_mirna_frame resolve_target_frame split: sum.splits option.splits)

lemma populate_loop_committed:
  "committed (sess (snd (populate_loop emap df st))) = committed (sess st)"
  by (induction df arbitrary: st) (auto split: sum.splits dest: populate_row_committed)

lemma populate_row_bad:
  "py_int (r_entrez_id r) = Inl e \<Longrightarrow> populate_row emap r st = Inl e"
  by (simp add: populate_row_def)

lemma py_int_error: "py_int c = Inl e \<Longrightarrow> e = ValueError"
  by (cases c) auto

lemma populate_row_error: "populate_row emap r st = Inl e \<Longrightarrow> e = ValueError"
  by (auto simp: populate_row_def Let_def case_prod_beta split: sum.splits dest: py_int_error)

lemma populate_loop_bad:
  assumes "r \<in> set df" "py_int (r_entrez_id r) = Inl e"
  shows "fst (populate_loop emap df st) = Some ValueError"
  using assms
proof (induction df arbitrary: st)
  case Nil
  then show ?case by simp
next
  case (Cons a df)
  show ?case
  proof (cases "populate_row emap a st")
    case (Inl e')
    then show ?thesis using populate_row_error[OF Inl] by simp
  next
    case (Inr st')
    with Cons.prems have "r \<in> set df" by (auto simp: populate_row_bad)
    with Cons.IH[of st'] Cons.prems Inr show ?thesis by simp
  qed
qed

text \<open>
  Claim C5. When some row of the table has a gene id on which \<open>int()\<close> raises, \<open>populate\<close>
  ends with that fault, whatever the other rows are, and the committed store is the one
  it started from: the commit is never reached and nothing of the run is visible.
\<close>

theorem populate_aborts_on_bad_gene_id:
  assumes "r \<in> set df" and "py_int (r_entrez_id r) = Inl e"
  shows "fst (populate registry df s) = Some ValueError \<and>
         committed (snd (populate registry df s)) = committed s"
proof -
  obtain res st where l: "populate_loop (build_entrez_map registry) df (init_state s) = (res, st)"
    by force
  from populate_loop_bad[OF assms, of "build_entrez_map registry" "init_state s"] l
  have res: "res = Some ValueError" by simp
  from populate_loop_committed[of "build_entrez_map registry" df "init_state s"] l
  have "committed (sess st) = committed s" by (simp add: init_state_def)
  with l res show ?thesis by (simp add: populate_def)
qed

theorem populate_aborts_on_bad_gene_id_witness:
  "ex_bad \<in> set [ex_row1, ex_bad, ex_row3] \<and>
   py_int (r_entrez_id ex_bad) = Inl ValueError \<and>
   fst (populate ex_registry [ex_row1, ex_bad, ex_row3] (fresh_session empty_store))
     = Some ValueError \<and>
   committed (snd (populate ex_registry [ex_row1, ex_bad, ex_row3] (fresh_session empty_store)))
     = empty_store"
  using populate_aborts_on_bad_gene_id
          [of ex_bad "[ex_row1, ex_bad, ex_row3]" ValueError ex_registry
              "fresh_session empty_store"]
  by (simp add: ex_bad_def fresh_session_def)

lemma inter_ok_lookup:
  assumes "inter_ok st" "interaction_set st k = Some ia"
  shows "interaction_key ia = k" "ia \<in> set (interaction_tbl (pending (sess st)))"
  using assms unfolding inter_ok_def by blast+

lemma inter_ok_member:
  assumes "inter_ok st" "ia \<in> set (interaction_tbl (pending (sess st)))"
  shows "interaction_set st (interaction_key ia) = Some ia"
  using assms unfolding inter_ok_def by blast

lemma names_ok_cong:
  "name_mirna a = name_mirna b \<Longrightarrow> target_set a = target_set b \<Longrightarrow> names_ok a = names_ok b"
  by (simp add: names_ok_def)

lemma populate_row_names:
  assumes "populate_row emap r st = Inr st'" "names_ok st"
  shows "names_ok st'"
proof -
  from assms(1) obtain n where n: "py_int (r_entrez_id r) = Inr n"
    by (auto simp: populate_row_def split: sum.splits)
  let ?st2 = "snd (resolve_target emap r (py_str_int n) (snd (resolve_mirna r st)))"
  have a: "names_ok ?st2"
    using assms(2) by (simp add: resolve_mirna_names resolve_target_names)
  show ?thesis
  proof (cases "interaction_set st (r_mirna_name r, py_str_int n)")
    case (Some ia0)
    with n assms(1) have "name_mirna st' = name_mirna st \<and> target_set st' = target_set st"
      by (auto simp: populate_row_def Let_def)
    then show ?thesis using assms(2) names_ok_cong by blast
  next
    case None
    with n assms(1) have "name_mirna st' = name_mirna ?st2 \<and> target_set st' = target_set ?st2"
      by (auto simp: populate_row_def Let_def case_prod_beta)
    then show ?thesis using a names_ok_cong by blast
  qed
qed

text \<open>What one pass through the loop body does to the Interactions and the Evidence.\<close>

lemma populate_row_effect:
  assumes "populate_row emap r st = Inr st'" "names_ok st" "inter_ok st"
  shows "\<exists>k ia ev. row_key r = Some k \<and>
           interaction_set st' = (interaction_set st)(k \<mapsto> ia) \<and>
           interaction_key ia = k \<and>
           (case interaction_set st k of
              Some ia0 \<Rightarrow> ia = ia0 \<and>
                interaction_tbl (pending (sess st')) = interaction_tbl (pending (sess st))
            | None \<Rightarrow> mirtarbase_id ia = r_mirtarbase_id r \<and>
                interaction_tbl (pending (sess st')) =
                  interaction_tbl (pending (sess st)) @ [ia]) \<and>
           evidence_tbl (pending (sess st')) = evidence_tbl (pending (sess st)) @ [ev] \<and>
           ev_interaction ev = ia"
proof -
  from assms(1) obtain n where n: "py_int (r_entrez_id r) = Inr n"
    by (auto simp: populate_row_def split: sum.splits)
  let ?k = "(r_mirna_name r, py_str_int n)"
  have rk: "row_key r = Some ?k" by (simp add: row_key_def n)
  show ?thesis
  proof (cases "interaction_set st ?k")
    case (Some ia0)
    with assms(3) have key: "interaction_key ia0 = ?k" by (simp add: inter_ok_lookup)
    from Some n assms(1) have
      "st' = st\<lparr>sess := add_evidence \<lparr>ev_experiment = r_exp r, support = r_sup_type r,
                 reference = r_pubmed r, ev_interaction = ia0\<rparr> (sess st)\<rparr>"
      by (simp add: populate_row_def Let_def)
    then show ?thesis using rk Some key
      by (auto simp: add_evidence_def fun_upd_idem)
  next
    case None
    let ?m = "fst (resolve_mirna r st)"
    let ?st1 = "snd (resolve_mirna r st)"
    let ?t = "fst (resolve_target emap r (py_str_int n) ?st1)"
    let ?st2 = "snd (resolve_target emap r (py_str_int n) ?st1)"
    let ?ia = "\<lparr>mirtarbase_id = r_mirtarbase_id r, int_mirna = ?m, int_target = ?t\<rparr>"
    from None n assms(1) have st': "st' = ?st2\<lparr>interaction_set := (interaction_set ?st2)(?k \<mapsto> ?ia),
        sess := add_evidence \<lparr>ev_experiment = r_exp r, support = r_sup_type r,
                 reference = r_pubmed r, ev_interaction = ?ia\<rparr> (add_interaction ?ia (sess ?st2))\<rparr>"
      by (simp add: populate_row_def Let_def case_prod_beta)
    have "names_ok ?st1" using assms(2) by (rule resolve_mirna_names)
    then have "entrez_id ?t = py_str_int n" by (rule resolve_target_names)
    moreover have "mirna_name ?m = r_mirna_name r" using assms(2) by (rule resolve_mirna_names)
    ultimately have key: "interaction_key ?ia = ?k" by (simp add: interaction_key_def)
    show ?thesis using rk None key
      by (simp add: st' add_evidence_def add_interaction_def resolve_mirna_frame
          resolve_target_frame)
  qed
qed

lemma populate_row_inter:
  assumes "populate_row emap r st = Inr st'" "names_ok st" "inter_ok st"
  shows "inter_ok st'"
proof -
  from populate_row_effect[OF assms] obtain k ia ev where
    k: "row_key r = Some k" and
    m: "interaction_set st' = (interaction_set st)(k \<mapsto> ia)" and
    key: "interaction_key ia = k" and
    c: "(case interaction_set st k of
              Some ia0 \<Rightarrow> ia = ia0 \<and>
                interaction_tbl (pending (sess st')) = interaction_tbl (pending (sess st))
            | None \<Rightarrow> mirtarbase_id ia = r_mirtarbase_id r \<and>
                interaction_tbl (pending (sess st')) =
                  interaction_tbl (pending (sess st)) @ [ia])" and
    e: "evidence_tbl (pending (sess st')) = evidence_tbl (pending (sess st)) @ [ev]" and
    ei: "ev_interaction ev = ia"
    by blast
  show ?thesis
  proof (cases "interaction_set st k")
    case (Some ia0)
    with c have eq: "ia = ia0"
      "interaction_tbl (pending (sess st')) = interaction_tbl (pending (sess st))" by auto
    with m Some have m': "interaction_set st' = interaction_set st" by (simp add: fun_upd_idem)
    from assms(3) Some eq have "ia \<in> set (interaction_tbl (pending (sess st)))"
      by (simp add: inter_ok_lookup)
    with assms(3) show ?thesis unfolding inter_ok_def m' eq(2) e using ei by auto
  next
    case None
    with c have tbl: "interaction_tbl (pending (sess st')) =
                  interaction_tbl (pending (sess st)) @ [ia]" by simp
    have notin: "ia \<notin> set (interaction_tbl (pending (sess st)))"
    proof
      assume "ia \<in> set (interaction_tbl (pending (sess st)))"
      with assms(3) have "interaction_set st (interaction_key ia) = Some ia"
        by (simp add: inter_ok_member)
      with None key show False by simp
    qed
    have other: "interaction_key ia' \<noteq> k" if "ia' \<in> set (interaction_tbl (pending (sess st)))" for ia'
    proof
      assume "interaction_key ia' = k"
      moreover from assms(3) that have "interaction_set st (interaction_key ia') = Some ia'"
        by (simp add: inter_ok_member)
      ultimately show False using None by simp
    qed
    from assms(3) show ?thesis unfolding inter_ok_def m tbl e
      using ei key notin other by auto
  qed
qed

lemma populate_loop_keys:
  assumes "populate_loop emap df st = (None, st')" "names_ok st" "inter_ok st"
  shows "names_ok st' \<and> inter_ok st' \<and>
     key_count k st' = key_count k st + length (filter (\<lambda>r. row_key r = Some k) df) \<and>
     (case interaction_set st k of
        Some ia \<Rightarrow> interaction_set st' k = Some ia
      | None \<Rightarrow>
          (case filter (\<lambda>r. row_key r = Some k) df of
             [] \<Rightarrow> interaction_set st' k = None
           | r # rs \<Rightarrow> \<exists>ia. interaction_set st' k = Some ia \<and>
                              mirtarbase_id ia = r_mirtarbase_id r))"
  using assms
proof (induction df arbitrary: st)
  case Nil
  then show ?case by (simp split: option.splits)
next
  case (Cons a df)
  from Cons.prems(1) obtain st1 where
    row: "populate_row emap a st = Inr st1" and loop: "populate_loop emap df st1 = (None, st')"
    by (auto split: sum.splits)
  have n1: "names_ok st1" using row Cons.prems(2) by (rule populate_row_names)
  have i1: "inter_ok st1" using row Cons.prems(2,3) by (rule populate_row_inter)
  note IH = Cons.IH[OF loop n1 i1]
  from populate_row_effect[OF row Cons.prems(2,3)] obtain ka ia ev where
    ka: "row_key a = Some ka" and
    m: "interaction_set st1 = (interaction_set st)(ka \<mapsto> ia)" and
    key: "interaction_key ia = ka" and
    c: "(case interaction_set st ka of
              Some ia0 \<Rightarrow> ia = ia0 \<and>
                interaction_tbl (pending (sess st1)) = interaction_tbl (pending (sess st))
            | None \<Rightarrow> mirtarbase_id ia = r_mirtarbase_id a \<and>
                interaction_tbl (pending (sess st1)) =
                  interaction_tbl (pending (sess st)) @ [ia])" and
    e: "evidence_tbl (pending (sess st1)) = evidence_tbl (pending (sess st)) @ [ev]" and
    ei: "ev_interaction ev = ia"
    by blast
  have cnt: "key_count k st1 = key_count k st + (if ka = k then 1 else 0)"
    by (simp add: key_count_def e ei key)
  have cnt': "key_count k st' = key_count k st + length (filter (\<lambda>r. row_key r = Some k) (a # df))"
    using IH cnt ka by auto
  have look: "(case interaction_set st k of
        Some ia \<Rightarrow> interaction_set st' k = Some ia
      | None \<Rightarrow>
          (case filter (\<lambda>r. row_key r = Some k) (a # df) of
             [] \<Rightarrow> interaction_set st' k = None
           | r # rs \<Rightarrow> \<exists>ia. interaction_set st' k = Some ia \<and>
                              mirtarbase_id ia = r_mirtarbase_id r))"
  proof (cases "ka = k")
    case True
    show ?thesis
    proof (cases "interaction_set st k")
      case None
      with c True have "mirtarbase_id ia = r_mirtarbase_id a" by simp
      moreover from m True have "interaction_set st1 k = Some ia" by simp
      with IH have "interaction_set st' k = Some ia" by simp
      ultimately show ?thesis using None ka True by simp
    next
      case (Some ia0)
      with c True have "ia = ia0" by simp
      with m True have "interaction_set st1 k = Some ia0" by simp
      with IH have "interaction_set st' k = Some ia0" by simp
      then show ?thesis using Some by simp
    qed
  next
    case False
    with m have same: "interaction_set st1 k = interaction_set st k" by simp
    from False ka have f: "filter (\<lambda>r. row_key r = Some k) (a # df) =
       filter (\<lambda>r. row_key r = Some k) df" by simp
    from IH show ?thesis unfolding f same by simp
  qed
  from IH cnt' look show ?case by simp
qed

lemma filter_single:
  assumes "distinct xs" "x \<in> set xs" "P x" "\<forall>y \<in> set xs. P y \<longrightarrow> y = x"
  shows "filter P xs = [x]"
  using assms
proof (induction xs)
  case Nil
  then show ?case by simp
next
  case (Cons a xs)
  show ?case
  proof (cases "a = x")
    case True
    from True Cons.prems(1) have nx: "x \<notin> set xs" by simp
    have "\<forall>y \<in> set xs. \<not> P y"
    proof
      fix y assume y: "y \<in> set xs"
      show "\<not> P y"
      proof
        assume "P y"
        with y Cons.prems(4) have "y = x" by (meson list.set_intros(2))
        with y nx show False by blast
      qed
    qed
    then have "filter P xs = []" by (simp add: filter_empty_conv)
    with True Cons.prems(3) show ?thesis by simp
  next
    case False
    from Cons.prems(4) have "P a \<longrightarrow> a = x" by (meson list.set_intros(1))
    with False have na: "\<not> P a" by blast
    from False Cons.prems(2) have mem: "x \<in> set xs" by auto
    from Cons.prems(1) have d: "distinct xs" by simp
    from Cons.prems(4) have all: "\<forall>y \<in> set xs. P y \<longrightarrow> y = x" by (meson list.set_intros(2))
    from Cons.IH[OF d mem Cons.prems(3) all] na show ?thesis by simp
  qed
qed

lemma init_state_ok: "names_ok (init_state s)"
  by (simp add: names_ok_def init_state_def)

lemma init_state_inter_ok: "inter_ok (init_state (fresh_session db))"
  by (simp add: inter_ok_def init_state_def fresh_session_def empty_store_def)

lemma populate_success:
  assumes "populate registry df (fresh_session db) = (None, s')"
  obtains st where "populate_loop (build_entrez_map registry) df (init_state (fresh_session db))
                      = (None, st)"
    and "interaction_tbl (committed s') = interaction_tbl db @ interaction_tbl (pending (sess st))"
    and "evidence_tbl (committed s') = evidence_tbl db @ evidence_tbl (pending (sess st))"
    and "target_tbl (committed s') = target_tbl db @ target_tbl (pending (sess st))"
proof -
  obtain res st where
    l: "populate_loop (build_entrez_map registry) df (init_state (fresh_session db)) = (res, st)"
    by force
  with assms have res: "res = None" and s': "s' = commit (sess st)"
    by (auto simp: populate_def split: option.splits)
  from populate_loop_committed[of "build_entrez_map registry" df "init_state (fresh_session db)"] l
  have "committed (sess st) = db" by (simp add: init_state_def fresh_session_def)
  then show ?thesis using that[of st] l res s' by (simp add: commit_def)
qed

text \<open>
  Claim C1. After a run of \<open>populate\<close> that succeeded, take any key \<open>k\<close> (miRNA name
  and stringified integer gene id) that some row has: \<open>r0\<close> is the first row with that key
  and \<open>rest\<close> the later ones. Among the Interactions the run created there is exactly one
  with the key \<open>k\<close>; its \<open>mirtarbase_id\<close> is that of \<open>r0\<close>; and the number of Evidence
  records created for it is the number of rows with the key.
\<close>

theorem populate_one_interaction_per_key:
  assumes "populate registry df (fresh_session db) = (None, s')"
      and "filter (\<lambda>r. row_key r = Some k) df = r0 # rest"
  shows "\<exists>ia. filter (\<lambda>i. interaction_key i = k)
                 (drop (length (interaction_tbl db)) (interaction_tbl (committed s'))) = [ia] \<and>
              mirtarbase_id ia = r_mirtarbase_id r0 \<and>
              length (filter (\<lambda>ev. ev_interaction ev = ia)
                 (drop (length (evidence_tbl db)) (evidence_tbl (committed s')))) =
                Suc (length rest)"
proof -
  from populate_success[OF assms(1)] obtain st where
    l: "populate_loop (build_entrez_map registry) df (init_state (fresh_session db)) = (None, st)"
    and it: "interaction_tbl (committed s') = interaction_tbl db @ interaction_tbl (pending (sess st))"
    and et: "evidence_tbl (committed s') = evidence_tbl db @ evidence_tbl (pending (sess st))"
    by blast
  let ?st0 = "init_state (fresh_session db)"
  have k0: "key_count k ?st0 = 0" "interaction_set ?st0 k = None"
    by (simp_all add: key_count_def init_state_def fresh_session_def empty_store_def)
  from populate_loop_keys[OF l init_state_ok init_state_inter_ok, of k] k0 assms(2)
  obtain ia where ok: "inter_ok st" and cnt: "key_count k st = Suc (length rest)"
    and ia: "interaction_set st k = Some ia" and mid: "mirtarbase_id ia = r_mirtarbase_id r0"
    by auto
  let ?tbl = "interaction_tbl (pending (sess st))"
  have key: "interaction_key ia = k" and mem: "ia \<in> set ?tbl"
    using inter_ok_lookup[OF ok ia] by simp_all
  have uniq: "\<forall>y \<in> set ?tbl. interaction_key y = k \<longrightarrow> y = ia"
  proof (intro ballI impI)
    fix y assume y: "y \<in> set ?tbl" "interaction_key y = k"
    from inter_ok_member[OF ok y(1)] y(2) ia show "y = ia" by simp
  qed
  have d: "distinct ?tbl" using ok by (simp add: inter_ok_def)
  have one: "filter (\<lambda>i. interaction_key i = k) ?tbl = [ia]"
    using d mem key uniq by (rule filter_single)
  have evs: "filter (\<lambda>ev. ev_interaction ev = ia) (evidence_tbl (pending (sess st))) =
             filter (\<lambda>ev. interaction_key (ev_interaction ev) = k) (evidence_tbl (pending (sess st)))"
  proof (rule filter_cong[OF refl])
    fix ev assume "ev \<in> set (evidence_tbl (pending (sess st)))"
    with ok have "ev_interaction ev \<in> set ?tbl" by (simp add: inter_ok_def)
    with uniq key show "(ev_interaction ev = ia) = (interaction_key (ev_interaction ev) = k)"
      by blast
  qed
  show ?thesis
    using one mid cnt evs by (simp add: it et key_count_def)
qed


theorem populate_one_interaction_per_key_witness:
  "fst (populate ex_registry [ex_row1, ex_row3, ex_row2] (fresh_session empty_store)) = None \<and>
   filter (\<lambda>r. row_key r = Some (''mmu-miR-124-3p'', ''7852'')) [ex_row1, ex_row3, ex_row2]
     = [ex_row1, ex_row2] \<and>
   (\<exists>ia. filter (\<lambda>i. interaction_key i = (''mmu-miR-124-3p'', ''7852''))
            (interaction_tbl (committed (snd (populate ex_registry [ex_row1, ex_row3, ex_row2]
               (fresh_session empty_store))))) = [ia] \<and>
         mirtarbase_id ia = ''MIRT000005'' \<and>
         length (filter (\<lambda>ev. ev_interaction ev = ia)
            (evidence_tbl (committed (snd (populate ex_registry [ex_row1, ex_row3, ex_row2]
               (fresh_session empty_store)))))) = 2)"
proof -
  let ?p = "populate ex_registry [ex_row1, ex_row3, ex_row2] (fresh_session empty_store)"
  have a: "fst ?p = None"
    by (simp add: populate_eval)
  have b: "filter (\<lambda>r. row_key r = Some (''mmu-miR-124-3p'', ''7852''))
             [ex_row1, ex_row3, ex_row2] = [ex_row1, ex_row2]"
    by (simp add: populate_eval)
  from a have c: "?p = (None, snd ?p)" by (metis prod.collapse)
  have d: "r_mirtarbase_id ex_row1 = ''MIRT000005''" by (simp add: ex_row1_def)
  have e: "length (interaction_tbl empty_store) = 0" "length (evidence_tbl empty_store) = 0"
    by (simp_all add: empty_store_def)
  have f: "Suc (length [ex_row2]) = 2" by simp
  note t = populate_one_interaction_per_key[OF c b, unfolded e drop_0 d f]
  from a b t show ?thesis by (intro conjI)
qed

lemma resolve_target_hgnc:
  assumes "\<forall>t \<in> set (target_tbl (pending (sess st))). hgnc_fields_ok emap t"
  shows "\<forall>t \<in> set (target_tbl (pending (sess (snd (resolve_target emap r eid st))))).
           hgnc_fields_ok emap t"
  using assms
  by (auto simp: resolve_target_def add_target_def Let_def case_prod_beta hgnc_fields_ok_def
      resolve_species_frame split: option.splits)

lemma populate_row_targets:
  assumes "populate_row emap r st = Inr st'"
  shows "\<exists>eid. target_tbl (pending (sess st')) = target_tbl (pending (sess st)) \<or>
     target_tbl (pending (sess st')) =
       target_tbl (pending (sess (snd (resolve_target emap r eid (snd (resolve_mirna r st))))))"
  using assms
  by (auto simp: populate_row_def add_interaction_def add_evidence_def Let_def case_prod_beta
      split: sum.splits option.splits)

lemma populate_row_hgnc:
  assumes "populate_row emap r st = Inr st'"
    and "\<forall>t \<in> set (target_tbl (pending (sess st))). hgnc_fields_ok emap t"
  shows "\<forall>t \<in> set (target_tbl (pending (sess st'))). hgnc_fields_ok emap t"
proof -
  have "\<forall>t \<in> set (target_tbl (pending (sess (snd (resolve_mirna r st))))). hgnc_fields_ok emap t"
    using assms(2) by (simp add: resolve_mirna_frame)
  from resolve_target_hgnc[OF this] populate_row_targets[OF assms(1)] assms(2)
  show ?thesis by metis
qed

lemma populate_loop_hgnc:
  assumes "\<forall>t \<in> set (target_tbl (pending (sess st))). hgnc_fields_ok emap t"
  shows "\<forall>t \<in> set (target_tbl (pending (sess (snd (populate_loop emap df st))))).
           hgnc_fields_ok emap t"
  using assms
proof (induction df arbitrary: st)
  case Nil
  then show ?case by simp
next
  case (Cons a df)
  show ?case
  proof (cases "populate_row emap a st")
    case (Inl e)
    with Cons.prems show ?thesis by simp
  next
    case (Inr st1)
    from populate_row_hgnc[OF Inr Cons.prems] have
      "\<forall>t \<in> set (target_tbl (pending (sess st1))). hgnc_fields_ok emap t" .
    from Cons.IH[OF this] Inr show ?thesis by simp
  qed
qed

lemma run_targets_eq:
  "run_targets db (snd (populate registry df (fresh_session db))) =
   target_tbl (pending (sess (snd (populate_loop (build_entrez_map registry) df
      (init_state (fresh_session db))))))"
proof -
  obtain res st where
    l: "populate_loop (build_entrez_map registry) df (init_state (fresh_session db)) = (res, st)"
    by force
  from populate_loop_committed[of "build_entrez_map registry" df "init_state (fresh_session db)"] l
  have c: "committed (sess st) = db" by (simp add: init_state_def fresh_session_def)
  show ?thesis
    by (cases res) (simp_all add: populate_def l run_targets_def c commit_def empty_store_def)
qed

text \<open>
  Claim C6. Every Target that \<open>populate\<close> creates has its two HGNC fields set from the
  entry of the cross-reference map for its gene id (the symbol and the stringified
  identifier) when the map built from the registry has such an entry, and has both
  absent otherwise; so one of the fields is absent exactly when the other is.
\<close>

theorem populate_hgnc_fields_both_or_neither:
  assumes "t \<in> set (run_targets db (snd (populate registry df (fresh_session db))))"
  shows "hgnc_fields_ok (build_entrez_map registry) t \<and>
         (hgnc_symbol t = None \<longleftrightarrow> hgnc_id t = None)"
proof -
  have "\<forall>t \<in> set (target_tbl (pending (sess (init_state (fresh_session db))))).
          hgnc_fields_ok (build_entrez_map registry) t"
    by (simp add: init_state_def fresh_session_def empty_store_def)
  from populate_loop_hgnc[OF this, of df] assms
  have ok: "hgnc_fields_ok (build_entrez_map registry) t"
    by (simp add: run_targets_eq)
  then have "hgnc_symbol t = None \<longleftrightarrow> hgnc_id t = None"
    by (auto simp: hgnc_fields_ok_def split: option.splits)
  with ok show ?thesis by simp
qed

lemma build_entrez_map_fold_dom:
  "(fold (\<lambda>model emap.
             (case g_entrez model of
                None \<Rightarrow> emap
              | Some e \<Rightarrow> if e \<noteq> [] then emap(e \<mapsto> model) else emap))
          models m0) k \<noteq> None \<longleftrightarrow>
   (m0 k \<noteq> None \<or> (k \<noteq> [] \<and> (\<exists>g \<in> set models. g_entrez g = Some k)))"
  by (induction models arbitrary: m0) (auto split: option.splits)

lemma build_entrez_map_dom:
  "build_entrez_map registry k \<noteq> None \<longleftrightarrow>
     k \<noteq> [] \<and> (\<exists>g \<in> set registry. g_entrez g = Some k)"
  unfolding build_entrez_map_def build_entrez_map_fold_dom by simp

theorem populate_hgnc_fields_both_or_neither_witness:
  "ex_target1 \<in> set (run_targets empty_store
       (snd (populate ex_registry [ex_row1, ex_row3, ex_row2] (fresh_session empty_store)))) \<and>
   hgnc_fields_ok (build_entrez_map ex_registry) ex_target1 \<and>
   (hgnc_symbol ex_target1 = None) = (hgnc_id ex_target1 = None)"
proof -
  have a: "ex_target1 \<in> set (run_targets empty_store
       (snd (populate ex_registry [ex_row1, ex_row3, ex_row2] (fresh_session empty_store))))"
    by (simp add: populate_eval run_targets_def ex_target1_def)
  from populate_hgnc_fields_both_or_neither[OF a] a show ?thesis by simp
qed



section \<open>Properties of the enrichment of RNA nodes\<close>

lemmas graph_eval =
  rna_lookup_def enrich_rna_handle_hgnc_def enrich_rna_handle_entrez_def truthy_def
  query_target_by_entrez_id_def query_target_by_hgnc_symbol_def
  query_target_by_hgnc_identifier_def target_interactions_def interaction_evidences_def
  add_mti_edges_def add_qualified_edge_def add_node_def mti_annotations_def
  enrich_rnas_def enrich_rnas_step_def py_lower_def lower_char_def
  py_str_int_def nat_digits.simps digit_char_def Let_def
  RNA_def MIRNA_def DIRECTLY_DECREASES_def
  mti_edge_def mti_edges_def node_edges_def
  ex_db_def ex_db_permuted_def ex_mirna1_def ex_mirna3_def ex_target1_def ex_target3_def
  ex_interaction1_def ex_interaction3_def ex_evidence1_def ex_evidence2_def ex_evidence3_def
  ex_ven_def ex_as_bel_def ex_target_as_bel_def ex_graph_def
  ex_rna_hgnc_def ex_rna_hgnc_id_def ex_rna_hgnc_bare_def ex_rna_hgnc_empty_id_def
  ex_rna_entrez_def ex_rna_entrez_empty_id_def ex_rna_other_def ex_mirna_node_def

lemma ex_db_populated:
  "populate ex_registry [ex_row1, ex_row3, ex_row2] (fresh_session empty_store) =
     (None, \<lparr>pending = empty_store, committed = ex_db\<rparr>)"
  by (simp add: populate_eval ex_db_def ex_mirna1_def ex_mirna3_def ex_target1_def ex_target3_def
  ex_interaction1_def ex_interaction3_def ex_evidence1_def ex_evidence2_def ex_evidence3_def)

lemma add_qualified_edge_edges:
  "g_edges (add_qualified_edge u v rel ev cit ann g) =
     g_edges g @ [\<lparr>e_source = u, e_target = v, e_relation = rel, e_evidence = ev,
                    e_citation = cit, e_annotations = ann\<rparr>]"
  by (simp add: add_qualified_edge_def add_node_def Let_def)

lemma inner_fold_edges:
  "g_edges (fold (\<lambda>ev g2.
                     add_qualified_edge (as_bel (int_mirna ia)) n DIRECTLY_DECREASES
                       (support ev) (py_str_int (reference ev)) (mti_annotations ev) g2)
                  evs g) = g_edges g @ map (mti_edge as_bel n ia) evs"
  by (induction evs arbitrary: g)
     (simp_all add: add_qualified_edge_edges mti_edge_def mti_annotations_def)

lemma outer_fold_edges:
  "g_edges (fold (\<lambda>ia g1.
             fold (\<lambda>ev g2.
                     add_qualified_edge (as_bel (int_mirna ia)) n DIRECTLY_DECREASES
                       (support ev) (py_str_int (reference ev)) (mti_annotations ev) g2)
                  (interaction_evidences db ia) g1) ias g) =
   g_edges g @ concat (map (\<lambda>ia. map (mti_edge as_bel n ia) (interaction_evidences db ia)) ias)"
  by (induction ias arbitrary: g) (simp_all add: inner_fold_edges)

lemma add_mti_edges_edges:
  "g_edges (add_mti_edges as_bel db n t g) = g_edges g @ mti_edges as_bel db n t"
  by (simp add: add_mti_edges_def mti_edges_def outer_fold_edges)

lemma enrich_rnas_step_edges:
  assumes "enrich_rnas_step ven as_bel db n g = Inr g'"
  shows "g_edges g' = g_edges g @ node_edges ven as_bel db n"
  using assms
  by (auto simp: enrich_rnas_step_def node_edges_def add_mti_edges_edges
      split: sum.splits option.splits)

lemma enrich_rnas_loop_edges:
  assumes "enrich_rnas_loop ven as_bel db ns g = (None, g')"
  shows "g_edges g' = g_edges g @ concat (map (node_edges ven as_bel db) ns)"
  using assms
proof (induction ns arbitrary: g)
  case Nil
  then show ?case by simp
next
  case (Cons n ns)
  from Cons.prems obtain g1 where
    s: "enrich_rnas_step ven as_bel db n g = Inr g1" and
    l: "enrich_rnas_loop ven as_bel db ns g1 = (None, g')"
    by (auto split: sum.splits)
  from Cons.IH[OF l] enrich_rnas_step_edges[OF s] show ?case by simp
qed

lemma node_edges_target: "e \<in> set (node_edges ven as_bel db n) \<Longrightarrow> e_target e = n"
  by (auto simp: node_edges_def mti_edges_def mti_edge_def split: sum.splits option.splits)

lemma filter_concat_distinct:
  assumes "distinct ns" "n \<in> set ns" "\<forall>m \<in> set ns. \<forall>e \<in> set (f m). tgt e = m"
  shows "filter (\<lambda>e. tgt e = n) (concat (map f ns)) = f n"
  using assms
proof (induction ns)
  case Nil
  then show ?case by simp
next
  case (Cons a ns)
  from Cons.prems(3) have all: "\<forall>m \<in> set ns. \<forall>e \<in> set (f m). tgt e = m"
    and hd: "\<forall>e \<in> set (f a). tgt e = a" by simp_all
  show ?case
  proof (cases "a = n")
    case True
    with Cons.prems(1) have "n \<notin> set ns" by simp
    with all have "\<forall>e \<in> set (concat (map f ns)). tgt e \<noteq> n" by auto
    then have "filter (\<lambda>e. tgt e = n) (concat (map f ns)) = []"
      by (simp add: filter_empty_conv)
    moreover from hd True have "filter (\<lambda>e. tgt e = n) (f a) = f n"
      by (simp add: filter_id_conv)
    ultimately show ?thesis by simp
  next
    case False
    with hd have "filter (\<lambda>e. tgt e = n) (f a) = []" by (auto simp: filter_empty_conv)
    moreover from False Cons.prems have "filter (\<lambda>e. tgt e = n) (concat (map f ns)) = f n"
      using all by (intro Cons.IH) auto
    ultimately show ?thesis by simp
  qed
qed

text \<open>
  Claim C2. Let \<open>enrich_rnas\<close> run to its end on a graph, and let \<open>n\<close> be a node of the
  graph that the loop resolves to the stored Target \<open>t\<close>. The edges added towards \<open>n\<close>
  are, for each Interaction of \<open>t\<close> and each Evidence of that Interaction, one edge from
  the node of the Interaction's Mirna to \<open>n\<close> with relation directly-decreases, the
  stringified reference as citation and the annotations Experiment and SupportType of
  the Evidence; their number is the sum over the Interactions of the numbers of Evidence
  records.
\<close>

theorem enrich_rnas_adds_one_edge_per_evidence:
  assumes "enrich_rnas ven as_bel db g = (None, g')"
      and "distinct (g_nodes g)"
      and "n \<in> set (g_nodes g)"
      and "rna_lookup ven db n = Inr (Some t)"
  shows "filter (\<lambda>e. e_target e = n) (drop (length (g_edges g)) (g_edges g')) =
           concat (map (\<lambda>ia. map (mti_edge as_bel n ia) (interaction_evidences db ia))
                       (target_interactions db t)) \<and>
         length (filter (\<lambda>e. e_target e = n) (drop (length (g_edges g)) (g_edges g'))) =
           (\<Sum>ia\<leftarrow>target_interactions db t. length (interaction_evidences db ia))"
proof -
  from assms(1) have "g_edges g' = g_edges g @ concat (map (node_edges ven as_bel db) (g_nodes g))"
    unfolding enrich_rnas_def by (rule enrich_rnas_loop_edges)
  then have new: "drop (length (g_edges g)) (g_edges g') =
                  concat (map (node_edges ven as_bel db) (g_nodes g))" by simp
  have "\<forall>m \<in> set (g_nodes g). \<forall>e \<in> set (node_edges ven as_bel db m). e_target e = m"
    by (simp add: node_edges_target)
  from filter_concat_distinct[OF assms(2,3) this]
  have "filter (\<lambda>e. e_target e = n) (drop (length (g_edges g)) (g_edges g')) =
          node_edges ven as_bel db n" by (simp add: new)
  also have "\<dots> = concat (map (\<lambda>ia. map (mti_edge as_bel n ia) (interaction_evidences db ia))
                       (target_interactions db t))"
    by (simp add: node_edges_def assms(4) mti_edges_def)
  finally have eq: "filter (\<lambda>e. e_target e = n) (drop (length (g_edges g)) (g_edges g')) =
           concat (map (\<lambda>ia. map (mti_edge as_bel n ia) (interaction_evidences db ia))
                       (target_interactions db t))" .
  show ?thesis unfolding eq by (simp add: length_concat comp_def)
qed

theorem enrich_rnas_adds_one_edge_per_evidence_witness:
  "fst (enrich_rnas ex_ven ex_as_bel ex_db (ex_graph [ex_rna_other, ex_rna_hgnc, ex_rna_entrez]))
     = None \<and>
   distinct (g_nodes (ex_graph [ex_rna_other, ex_rna_hgnc, ex_rna_entrez])) \<and>
   ex_rna_hgnc \<in> set (g_nodes (ex_graph [ex_rna_other, ex_rna_hgnc, ex_rna_entrez])) \<and>
   rna_lookup ex_ven ex_db ex_rna_hgnc = Inr (Some ex_target1) \<and>
   filter (\<lambda>e. e_target e = ex_rna_hgnc)
     (g_edges (snd (enrich_rnas ex_ven ex_as_bel ex_db
                      (ex_graph [ex_rna_other, ex_rna_hgnc, ex_rna_entrez])))) =
     [mti_edge ex_as_bel ex_rna_hgnc ex_interaction1 ex_evidence1,
      mti_edge ex_as_bel ex_rna_hgnc ex_interaction1 ex_evidence2] \<and>
   length (filter (\<lambda>e. e_target e = ex_rna_hgnc)
     (g_edges (snd (enrich_rnas ex_ven ex_as_bel ex_db
                      (ex_graph [ex_rna_other, ex_rna_hgnc, ex_rna_entrez]))))) = 2"
proof -
  let ?g = "ex_graph [ex_rna_other, ex_rna_hgnc, ex_rna_entrez]"
  let ?p = "enrich_rnas ex_ven ex_as_bel ex_db ?g"
  have a: "fst ?p = None" by (simp add: graph_eval)
  have b: "distinct (g_nodes ?g)" by (simp add: graph_eval)
  have c: "ex_rna_hgnc \<in> set (g_nodes ?g)" by (simp add: ex_graph_def)
  have d: "rna_lookup ex_ven ex_db ex_rna_hgnc = Inr (Some ex_target1)"
    by (simp add: graph_eval)
  have e: "drop (length (g_edges ?g)) (g_edges (snd ?p)) = g_edges (snd ?p)"
    by (simp add: ex_graph_def)
  have f: "concat (map (\<lambda>ia. map (mti_edge ex_as_bel ex_rna_hgnc ia)
                                 (interaction_evidences ex_db ia))
                       (target_interactions ex_db ex_target1)) =
     [mti_edge ex_as_bel ex_rna_hgnc ex_interaction1 ex_evidence1,
      mti_edge ex_as_bel ex_rna_hgnc ex_interaction1 ex_evidence2]"
    by (simp add: graph_eval)
  have g: "(\<Sum>ia\<leftarrow>target_interactions ex_db ex_target1.
             length (interaction_evidences ex_db ia)) = 2"
    by (simp add: graph_eval)
  from a have h: "?p = (None, snd ?p)" by (metis prod.collapse)
  note t = enrich_rnas_adds_one_edge_per_evidence[OF h b c d, unfolded e f g]
  from a b c d t show ?thesis by (intro conjI) simp_all
qed



section \<open>Properties of the namespace resolution\<close>

lemma rna_lookup_hgnc:
  assumes "n_function d = RNA" "n_namespace d = Some ns" "py_lower ns = ''hgnc''"
  shows "rna_lookup ven db d = enrich_rna_handle_hgnc db (n_identifier d) (n_name d)"
  using assms by (simp add: rna_lookup_def)

lemma rna_lookup_entrez:
  assumes "n_function d = RNA" "n_namespace d = Some ns" "py_lower ns \<noteq> ''hgnc''"
    "py_lower ns \<in> ven"
  shows "rna_lookup ven db d = enrich_rna_handle_entrez db (n_identifier d) (n_name d)"
  using assms by (simp add: rna_lookup_def)

lemma rna_lookup_other:
  assumes "n_function d = RNA" "n_namespace d = Some ns" "py_lower ns \<noteq> ''hgnc''"
    "py_lower ns \<notin> ven"
  shows "rna_lookup ven db d = Inr None"
  using assms by (simp add: rna_lookup_def)

lemma enrich_rnas_loop_raises:
  assumes "n \<in> set ns" "rna_lookup ven db n = Inl e"
  shows "fst (enrich_rnas_loop ven as_bel db ns g) \<noteq> None"
  using assms
proof (induction ns arbitrary: g)
  case Nil
  then show ?case by simp
next
  case (Cons a ns)
  show ?case
  proof (cases "enrich_rnas_step ven as_bel db a g")
    case (Inl e')
    then show ?thesis by simp
  next
    case (Inr g1)
    with Cons.prems have "a \<noteq> n" by (auto simp: enrich_rnas_step_def)
    with Cons.prems have "n \<in> set ns" by simp
    from Cons.IH[OF this Cons.prems(2)] Inr show ?thesis by simp
  qed
qed

text \<open>
  Claim C4, as the code has it. For an RNA node whose namespace is \<open>hgnc\<close> once put in
  lower case: when its identifier is present and not empty, the Target is looked up by
  exact match of \<open>hgnc_id\<close> with it; when the identifier is absent or empty and the name
  is present and not empty, by exact match of \<open>hgnc_symbol\<close> with the name; when both are
  absent or empty the lookup raises \<open>IndexError\<close>, the pass of the loop over that node
  raises it, and \<open>enrich_rnas\<close> on any graph with that node ends with a fault.
\<close>

theorem hgnc_lookup_by_identifier_then_symbol:
  assumes "n_function d = RNA" and "n_namespace d = Some ns" and "py_lower ns = ''hgnc''"
  shows "(\<forall>i. n_identifier d = Some i \<and> i \<noteq> [] \<longrightarrow>
            rna_lookup ven db d =
              one_or_none (filter (\<lambda>t. hgnc_id t = Some i) (target_tbl db))) \<and>
         (\<forall>s. \<not> truthy (n_identifier d) \<and> n_name d = Some s \<and> s \<noteq> [] \<longrightarrow>
            rna_lookup ven db d =
              one_or_none (filter (\<lambda>t. hgnc_symbol t = Some s) (target_tbl db))) \<and>
         (\<not> truthy (n_identifier d) \<and> \<not> truthy (n_name d) \<longrightarrow>
            rna_lookup ven db d = Inl IndexError \<and>
            enrich_rnas_step ven as_bel db d g = Inl IndexError \<and>
            (d \<in> set (g_nodes g') \<longrightarrow> fst (enrich_rnas ven as_bel db g') \<noteq> None))"
proof (intro conjI allI impI)
  fix i assume "n_identifier d = Some i \<and> i \<noteq> []"
  then show "rna_lookup ven db d = one_or_none (filter (\<lambda>t. hgnc_id t = Some i) (target_tbl db))"
    by (simp add: rna_lookup_hgnc[OF assms] enrich_rna_handle_hgnc_def truthy_def
        query_target_by_hgnc_identifier_def)
next
  fix s assume "\<not> truthy (n_identifier d) \<and> n_name d = Some s \<and> s \<noteq> []"
  then show "rna_lookup ven db d =
      one_or_none (filter (\<lambda>t. hgnc_symbol t = Some s) (target_tbl db))"
    by (simp add: rna_lookup_hgnc[OF assms] enrich_rna_handle_hgnc_def truthy_def
        query_target_by_hgnc_symbol_def)
next
  assume a: "\<not> truthy (n_identifier d) \<and> \<not> truthy (n_name d)"
  then show l: "rna_lookup ven db d = Inl IndexError"
    by (simp add: rna_lookup_hgnc[OF assms] enrich_rna_handle_hgnc_def)
  then show "enrich_rnas_step ven as_bel db d g = Inl IndexError"
    by (simp add: enrich_rnas_step_def)
  assume "d \<in> set (g_nodes g')"
  from enrich_rnas_loop_raises[OF this l] show "fst (enrich_rnas ven as_bel db g') \<noteq> None"
    by (simp add: enrich_rnas_def)
qed

text \<open>
  Claim C7, as the code has it. For an RNA node whose namespace, put in lower case, is
  not \<open>hgnc\<close>: when it is in the recognized set, the Target is looked up by exact match
  of \<open>entrez_id\<close> with the identifier when that is present and not empty, otherwise with
  the name when that is present and not empty, and the lookup raises \<open>IndexError\<close> when
  both are absent or empty; when it is not in the set, the node is skipped: no fault, and
  the graph is left as it is.
\<close>

theorem entrez_lookup_by_identifier_then_symbol:
  assumes "n_function d = RNA" and "n_namespace d = Some ns" and "py_lower ns \<noteq> ''hgnc''"
  shows "(py_lower ns \<in> ven \<longrightarrow>
            (\<forall>i. n_identifier d = Some i \<and> i \<noteq> [] \<longrightarrow>
               rna_lookup ven db d =
                 one_or_none (filter (\<lambda>t. entrez_id t = i) (target_tbl db))) \<and>
            (\<forall>s. \<not> truthy (n_identifier d) \<and> n_name d = Some s \<and> s \<noteq> [] \<longrightarrow>
               rna_lookup ven db d =
                 one_or_none (filter (\<lambda>t. entrez_id t = s) (target_tbl db))) \<and>
            (\<not> truthy (n_identifier d) \<and> \<not> truthy (n_name d) \<longrightarrow>
               rna_lookup ven db d = Inl IndexError)) \<and>
         (py_lower ns \<notin> ven \<longrightarrow>
            rna_lookup ven db d = Inr None \<and> enrich_rnas_step ven as_bel db d g = Inr g)"
proof (intro conjI allI impI)
  fix i assume v: "py_lower ns \<in> ven" and "n_identifier d = Some i \<and> i \<noteq> []"
  then show "rna_lookup ven db d = one_or_none (filter (\<lambda>t. entrez_id t = i) (target_tbl db))"
    by (simp add: rna_lookup_entrez[OF assms v] enrich_rna_handle_entrez_def truthy_def
        query_target_by_entrez_id_def)
next
  fix s assume v: "py_lower ns \<in> ven"
    and "\<not> truthy (n_identifier d) \<and> n_name d = Some s \<and> s \<noteq> []"
  then show "rna_lookup ven db d = one_or_none (filter (\<lambda>t. entrez_id t = s) (target_tbl db))"
    by (simp add: rna_lookup_entrez[OF assms v] enrich_rna_handle_entrez_def truthy_def
        query_target_by_entrez_id_def)
next
  assume v: "py_lower ns \<in> ven" and "\<not> truthy (n_identifier d) \<and> \<not> truthy (n_name d)"
  then show "rna_lookup ven db d = Inl IndexError"
    by (simp add: rna_lookup_entrez[OF assms v] enrich_rna_handle_entrez_def)
next
  assume v: "py_lower ns \<notin> ven"
  then show l: "rna_lookup ven db d = Inr None" by (simp add: rna_lookup_other[OF assms v])
  then show "enrich_rnas_step ven as_bel db d g = Inr g" by (simp add: enrich_rnas_step_def)
qed

theorem hgnc_lookup_by_identifier_then_symbol_witness:
  "n_function ex_rna_hgnc_id = RNA \<and> n_namespace ex_rna_hgnc_id = Some ''hgnc'' \<and>
   py_lower ''hgnc'' = ''hgnc'' \<and> n_identifier ex_rna_hgnc_id = Some ''2561'' \<and>
   rna_lookup ex_ven ex_db ex_rna_hgnc_id = Inr (Some ex_target1) \<and>
   n_function ex_rna_hgnc = RNA \<and> n_namespace ex_rna_hgnc = Some ''HGNC'' \<and>
   py_lower ''HGNC'' = ''hgnc'' \<and> n_identifier ex_rna_hgnc = None \<and>
   n_name ex_rna_hgnc = Some ''CXCR4'' \<and>
   rna_lookup ex_ven ex_db ex_rna_hgnc = Inr (Some ex_target1) \<and>
   n_function ex_rna_hgnc_bare = RNA \<and> n_namespace ex_rna_hgnc_bare = Some ''HGNC'' \<and>
   n_identifier ex_rna_hgnc_bare = None \<and> n_name ex_rna_hgnc_bare = None \<and>
   rna_lookup ex_ven ex_db ex_rna_hgnc_bare = Inl IndexError \<and>
   fst (enrich_rnas ex_ven ex_as_bel ex_db (ex_graph [ex_rna_hgnc, ex_rna_hgnc_bare])) \<noteq> None"
proof -
  have l1: "py_lower ''hgnc'' = ''hgnc''" and l2: "py_lower ''HGNC'' = ''hgnc''"
    by (simp_all add: py_lower_def lower_char_def)
  have a: "n_function ex_rna_hgnc_id = RNA" "n_namespace ex_rna_hgnc_id = Some ''hgnc''"
    "n_identifier ex_rna_hgnc_id = Some ''2561''"
    by (simp_all add: ex_rna_hgnc_id_def)
  have b: "n_function ex_rna_hgnc = RNA" "n_namespace ex_rna_hgnc = Some ''HGNC''"
    "n_identifier ex_rna_hgnc = None" "n_name ex_rna_hgnc = Some ''CXCR4''"
    by (simp_all add: ex_rna_hgnc_def)
  have c: "n_function ex_rna_hgnc_bare = RNA" "n_namespace ex_rna_hgnc_bare = Some ''HGNC''"
    "n_identifier ex_rna_hgnc_bare = None" "n_name ex_rna_hgnc_bare = None"
    by (simp_all add: ex_rna_hgnc_bare_def)
  note ta = hgnc_lookup_by_identifier_then_symbol
              [where ven = ex_ven and db = ex_db, OF a(1) a(2) l1]
  note tb = hgnc_lookup_by_identifier_then_symbol
              [where ven = ex_ven and db = ex_db, OF b(1) b(2) l2]
  note tc = hgnc_lookup_by_identifier_then_symbol
              [where ven = ex_ven and db = ex_db and as_bel = ex_as_bel
                 and g' = "ex_graph [ex_rna_hgnc, ex_rna_hgnc_bare]", OF c(1) c(2) l2]
  from ta a(3) have "rna_lookup ex_ven ex_db ex_rna_hgnc_id =
      one_or_none (filter (\<lambda>t. hgnc_id t = Some ''2561'') (target_tbl ex_db))" by simp
  also have "\<dots> = Inr (Some ex_target1)"
    by (simp add: ex_db_def ex_target1_def ex_target3_def)
  finally have ra: "rna_lookup ex_ven ex_db ex_rna_hgnc_id = Inr (Some ex_target1)" .
  from tb b(3,4) have "rna_lookup ex_ven ex_db ex_rna_hgnc =
      one_or_none (filter (\<lambda>t. hgnc_symbol t = Some ''CXCR4'') (target_tbl ex_db))"
    by (simp add: truthy_def)
  also have "\<dots> = Inr (Some ex_target1)"
    by (simp add: ex_db_def ex_target1_def ex_target3_def)
  finally have rb: "rna_lookup ex_ven ex_db ex_rna_hgnc = Inr (Some ex_target1)" .
  have mem: "ex_rna_hgnc_bare \<in> set (g_nodes (ex_graph [ex_rna_hgnc, ex_rna_hgnc_bare]))"
    by (simp add: ex_graph_def)
  from tc c(3,4) mem have rc: "rna_lookup ex_ven ex_db ex_rna_hgnc_bare = Inl IndexError"
    "fst (enrich_rnas ex_ven ex_as_bel ex_db (ex_graph [ex_rna_hgnc, ex_rna_hgnc_bare])) \<noteq> None"
    by (simp_all add: truthy_def)
  from l1 l2 a b c ra rb rc show ?thesis by (intro conjI)
qed

text \<open>
  Claim C4 as stated fails on a node that carries an identifier which is the empty
  string: the code does not look up by \<open>hgnc_id\<close> (which finds nothing) but by the
  symbol, and finds the Target.
\<close>

theorem hgnc_lookup_empty_identifier_counterexample:
  "n_function ex_rna_hgnc_empty_id = RNA \<and>
   n_namespace ex_rna_hgnc_empty_id = Some ''HGNC'' \<and> py_lower ''HGNC'' = ''hgnc'' \<and>
   n_identifier ex_rna_hgnc_empty_id = Some [] \<and>
   n_name ex_rna_hgnc_empty_id = Some ''CXCR4'' \<and>
   query_target_by_hgnc_identifier ex_db [] = Inr None \<and>
   query_target_by_hgnc_symbol ex_db ''CXCR4'' = Inr (Some ex_target1) \<and>
   rna_lookup ex_ven ex_db ex_rna_hgnc_empty_id = Inr (Some ex_target1)"
  by (simp add: graph_eval)

theorem entrez_lookup_by_identifier_then_symbol_witness:
  "n_function ex_rna_entrez = RNA \<and> n_namespace ex_rna_entrez = Some ''EGID'' \<and>
   py_lower ''EGID'' \<noteq> ''hgnc'' \<and> py_lower ''EGID'' \<in> ex_ven \<and>
   n_identifier ex_rna_entrez = None \<and> n_name ex_rna_entrez = Some ''999'' \<and>
   rna_lookup ex_ven ex_db ex_rna_entrez = Inr (Some ex_target3) \<and>
   n_function ex_rna_other = RNA \<and> n_namespace ex_rna_other = Some ''MGI'' \<and>
   py_lower ''MGI'' \<noteq> ''hgnc'' \<and> py_lower ''MGI'' \<notin> ex_ven \<and>
   rna_lookup ex_ven ex_db ex_rna_other = Inr None \<and>
   enrich_rnas_step ex_ven ex_as_bel ex_db ex_rna_other (ex_graph [ex_rna_other]) =
     Inr (ex_graph [ex_rna_other])"
proof -
  have l1: "py_lower ''EGID'' \<noteq> ''hgnc''" "py_lower ''EGID'' \<in> ex_ven"
    and l2: "py_lower ''MGI'' \<noteq> ''hgnc''" "py_lower ''MGI'' \<notin> ex_ven"
    by (simp_all add: py_lower_def lower_char_def ex_ven_def)
  have a: "n_function ex_rna_entrez = RNA" "n_namespace ex_rna_entrez = Some ''EGID''"
    "n_identifier ex_rna_entrez = None" "n_name ex_rna_entrez = Some ''999''"
    by (simp_all add: ex_rna_entrez_def)
  have b: "n_function ex_rna_other = RNA" "n_namespace ex_rna_other = Some ''MGI''"
    by (simp_all add: ex_rna_other_def)
  note ta = entrez_lookup_by_identifier_then_symbol
              [where ven = ex_ven and db = ex_db, OF a(1) a(2) l1(1)]
  note tb = entrez_lookup_by_identifier_then_symbol
              [where ven = ex_ven and db = ex_db and as_bel = ex_as_bel
                 and g = "ex_graph [ex_rna_other]", OF b(1) b(2) l2(1)]
  from ta l1(2) a(3,4) have "rna_lookup ex_ven ex_db ex_rna_entrez =
      one_or_none (filter (\<lambda>t. entrez_id t = ''999'') (target_tbl ex_db))"
    by (simp add: truthy_def)
  also have "\<dots> = Inr (Some ex_target3)"
    by (simp add: ex_db_def ex_target1_def ex_target3_def)
  finally have ra: "rna_lookup ex_ven ex_db ex_rna_entrez = Inr (Some ex_target3)" .
  from tb l2(2) have rb: "rna_lookup ex_ven ex_db ex_rna_other = Inr None"
    "enrich_rnas_step ex_ven ex_as_bel ex_db ex_rna_other (ex_graph [ex_rna_other]) =
       Inr (ex_graph [ex_rna_other])"
    by simp_all
  from l1 l2 a b ra rb show ?thesis by (intro conjI)
qed

text \<open>
  Claim C7 as stated fails in the same way: the identifier is present and empty, and the
  code looks the Target up by the name, not by the identifier (which finds nothing).
\<close>

theorem entrez_lookup_empty_identifier_counterexample:
  "n_function ex_rna_entrez_empty_id = RNA \<and>
   n_namespace ex_rna_entrez_empty_id = Some ''EGID'' \<and> py_lower ''EGID'' \<in> ex_ven \<and>
   n_identifier ex_rna_entrez_empty_id = Some [] \<and>
   n_name ex_rna_entrez_empty_id = Some ''7852'' \<and>
   query_target_by_entrez_id ex_db [] = Inr None \<and>
   rna_lookup ex_ven ex_db ex_rna_entrez_empty_id = Inr (Some ex_target1)"
  by (simp add: graph_eval)



section \<open>Properties of the enrichment of miRNA nodes and of the serialization\<close>

lemmas mirna_eval =
  enrich_mirnas_def enrich_mirnas_step_def mirna_join_def evidence_add_to_graph_def
  evidence_edge_def to_bel_def list_evidences_def count_evidences_def
  module_enrich_rnas_def module_enrich_rnas_step_def module_rna_lookup_def

lemma enrich_mirnas_step_mirtarbase:
  assumes "n_function d = MIRNA" "n_namespace d = Some ns" "py_lower ns = ''mirtarbase''"
  shows "fst (enrich_mirnas_step ven d names) = Some IndexError"
  using assms by (simp add: enrich_mirnas_step_def)

lemma enrich_mirnas_step_error:
  "fst (enrich_mirnas_step ven d names) = Some e \<Longrightarrow> e = IndexError"
  by (auto simp: enrich_mirnas_step_def Let_def split: if_splits)

lemma enrich_mirnas_loop_mirtarbase:
  assumes "d \<in> set ns" "n_function d = MIRNA" "n_namespace d = Some nsp"
    "py_lower nsp = ''mirtarbase''"
  shows "fst (enrich_mirnas_loop ven ns names) = Some IndexError"
  using assms(1)
proof (induction ns arbitrary: names)
  case Nil
  then show ?case by simp
next
  case (Cons a ns)
  obtain r names' where s: "enrich_mirnas_step ven a names = (r, names')" by force
  show ?case
  proof (cases r)
    case None
    with s enrich_mirnas_step_mirtarbase[OF assms(2-4), of ven names] have "a \<noteq> d" by auto
    with Cons.prems have "d \<in> set ns" by simp
    from Cons.IH[OF this] s None show ?thesis by simp
  next
    case (Some e)
    with s enrich_mirnas_step_error[of ven a names e] show ?thesis by simp
  qed
qed

text \<open>Every graph with a miRNA node of the mirtarbase namespace makes the method raise.\<close>

lemma enrich_mirnas_mirtarbase_raises:
  assumes "d \<in> set (g_nodes g)" "n_function d = MIRNA" "n_namespace d = Some nsp"
    "py_lower nsp = ''mirtarbase''"
  shows "enrich_mirnas ven add_to_graph db g = (Some IndexError, g)"
proof -
  obtain r names where l: "enrich_mirnas_loop ven (g_nodes g) {} = (r, names)" by force
  with enrich_mirnas_loop_mirtarbase[OF assms, of ven "{}"] have "r = Some IndexError" by simp
  with l show ?thesis by (simp add: enrich_mirnas_def)
qed

text \<open>
  Claim C3. The code at a miRNA node of namespace \<open>mirtarbase\<close> that carries a name, on
  a store that has two Evidence records for the Mirna of that name: \<open>enrich_mirnas\<close>
  raises \<open>IndexError\<close> and adds nothing to the graph.
\<close>

theorem enrich_mirnas_raises_on_named_node:
  "n_function ex_mirna_node = MIRNA \<and> n_namespace ex_mirna_node = Some ''mirtarbase'' \<and>
   n_name ex_mirna_node = Some ''mmu-miR-124-3p'' \<and>
   mirna_join ex_db {''mmu-miR-124-3p''} =
     [(ex_mirna1, ex_interaction1, ex_evidence1), (ex_mirna1, ex_interaction1, ex_evidence2)] \<and>
   enrich_mirnas ex_ven (evidence_add_to_graph ex_as_bel ex_target_as_bel) ex_db
       (ex_graph [ex_mirna_node]) = (Some IndexError, ex_graph [ex_mirna_node])"
  by (simp add: graph_eval mirna_eval)

lemma evidence_fold_edges:
  "g_edges (fold (evidence_add_to_graph ab tb) evs g) = g_edges g @ map (evidence_edge ab tb) evs"
  by (induction evs arbitrary: g)
     (simp_all add: evidence_add_to_graph_def evidence_edge_def add_qualified_edge_def
                    add_node_def Let_def)

lemma add_qualified_edge_nodes:
  "set (g_nodes (add_qualified_edge u v rel ev cit ann g)) = set (g_nodes g) \<union> {u, v}"
  by (auto simp: add_qualified_edge_def add_node_def Let_def)

lemma add_qualified_edge_frame:
  "namespace_url (add_qualified_edge u v rel ev cit ann g) = namespace_url g"
  "namespace_pattern (add_qualified_edge u v rel ev cit ann g) = namespace_pattern g"
  "g_name (add_qualified_edge u v rel ev cit ann g) = g_name g"
  "g_version (add_qualified_edge u v rel ev cit ann g) = g_version g"
  by (simp_all add: add_qualified_edge_def add_node_def Let_def)

lemma evidence_fold_nodes:
  "set (g_nodes (fold (evidence_add_to_graph ab tb) evs g)) =
     set (g_nodes g) \<union> (\<Union>ev \<in> set evs. {ab (int_mirna (ev_interaction ev)),
                                            tb (int_target (ev_interaction ev))})"
proof (induction evs arbitrary: g)
  case Nil
  then show ?case by simp
next
  case (Cons ev evs)
  have "set (g_nodes (evidence_add_to_graph ab tb ev g)) =
          set (g_nodes g) \<union> {ab (int_mirna (ev_interaction ev)),
                              tb (int_target (ev_interaction ev))}"
    by (simp add: evidence_add_to_graph_def add_qualified_edge_nodes)
  with Cons.IH[of "evidence_add_to_graph ab tb ev g"] show ?case by auto
qed

lemma evidence_fold_frame:
  "namespace_url (fold (evidence_add_to_graph ab tb) evs g) = namespace_url g"
  "namespace_pattern (fold (evidence_add_to_graph ab tb) evs g) = namespace_pattern g"
  "g_name (fold (evidence_add_to_graph ab tb) evs g) = g_name g"
  "g_version (fold (evidence_add_to_graph ab tb) evs g) = g_version g"
  by (induction evs arbitrary: g)
     (simp_all add: evidence_add_to_graph_def add_qualified_edge_frame)

text \<open>
  Claim C8. The graph that \<open>to_bel\<close> returns depends on the store and the two
  namespaces only. Its edges are the edges of the stored Evidence records, one for each
  in the order of the list, so as many as \<open>count_evidences\<close>; its namespace URLs are the
  two registered ones. For a store that lists the same Evidence records in another order,
  the graph has the same edges as a multiset, the same nodes and the same namespace
  entries, name and version.
\<close>

theorem to_bel_one_edge_per_evidence:
  "g_edges (to_bel hns ens mb (evidence_add_to_graph ab tb) db) =
     map (evidence_edge ab tb) (list_evidences db) \<and>
   length (g_edges (to_bel hns ens mb (evidence_add_to_graph ab tb) db)) = count_evidences db \<and>
   namespace_url (to_bel hns ens mb (evidence_add_to_graph ab tb) db) =
     [fst hns \<mapsto> snd hns, fst ens \<mapsto> snd ens] \<and>
   (mset (list_evidences db') = mset (list_evidences db) \<longrightarrow>
      mset (g_edges (to_bel hns ens mb (evidence_add_to_graph ab tb) db')) =
        mset (g_edges (to_bel hns ens mb (evidence_add_to_graph ab tb) db)) \<and>
      set (g_nodes (to_bel hns ens mb (evidence_add_to_graph ab tb) db')) =
        set (g_nodes (to_bel hns ens mb (evidence_add_to_graph ab tb) db)) \<and>
      namespace_url (to_bel hns ens mb (evidence_add_to_graph ab tb) db') =
        namespace_url (to_bel hns ens mb (evidence_add_to_graph ab tb) db) \<and>
      namespace_pattern (to_bel hns ens mb (evidence_add_to_graph ab tb) db') =
        namespace_pattern (to_bel hns ens mb (evidence_add_to_graph ab tb) db) \<and>
      g_name (to_bel hns ens mb (evidence_add_to_graph ab tb) db') =
        g_name (to_bel hns ens mb (evidence_add_to_graph ab tb) db) \<and>
      g_version (to_bel hns ens mb (evidence_add_to_graph ab tb) db') =
        g_version (to_bel hns ens mb (evidence_add_to_graph ab tb) db))"
proof -
  have e: "g_edges (to_bel hns ens mb (evidence_add_to_graph ab tb) d) =
             map (evidence_edge ab tb) (list_evidences d)" for d
    by (simp add: to_bel_def Let_def evidence_fold_edges)
  have n: "set (g_nodes (to_bel hns ens mb (evidence_add_to_graph ab tb) d)) =
     (\<Union>ev \<in> set (list_evidences d). {ab (int_mirna (ev_interaction ev)),
                                        tb (int_target (ev_interaction ev))})" for d
    by (simp add: to_bel_def Let_def evidence_fold_nodes)
  have u: "namespace_url (to_bel hns ens mb (evidence_add_to_graph ab tb) d) =
     [fst hns \<mapsto> snd hns, fst ens \<mapsto> snd ens]" for d
    by (simp add: to_bel_def Let_def evidence_fold_frame)
  have f: "namespace_pattern (to_bel hns ens mb (evidence_add_to_graph ab tb) d) =
             [mb \<mapsto> ''^.*$'']"
    "g_name (to_bel hns ens mb (evidence_add_to_graph ab tb) d) = ''miRTarBase''"
    "g_version (to_bel hns ens mb (evidence_add_to_graph ab tb) d) = ''1.0.0''" for d
    by (simp_all add: to_bel_def Let_def evidence_fold_frame)
  have p: "mset (map (evidence_edge ab tb) (list_evidences db')) =
           mset (map (evidence_edge ab tb) (list_evidences db)) \<and>
       set (list_evidences db') = set (list_evidences db)"
    if m: "mset (list_evidences db') = mset (list_evidences db)"
  proof
    from m have "image_mset (evidence_edge ab tb) (mset (list_evidences db')) =
                 image_mset (evidence_edge ab tb) (mset (list_evidences db))" by simp
    then show "mset (map (evidence_edge ab tb) (list_evidences db')) =
           mset (map (evidence_edge ab tb) (list_evidences db))" by simp
    from m show "set (list_evidences db') = set (list_evidences db)" by (rule mset_eq_setD)
  qed
  have l: "length (map (evidence_edge ab tb) (list_evidences db)) = count_evidences db"
    by (simp add: count_evidences_def list_evidences_def)
  show ?thesis
    unfolding e n u f using p l by blast
qed

theorem to_bel_one_edge_per_evidence_witness:
  "mset (list_evidences ex_db_permuted) = mset (list_evidences ex_db) \<and>
   list_evidences ex_db_permuted \<noteq> list_evidences ex_db \<and>
   count_evidences ex_db = 3 \<and>
   length (g_edges (to_bel (''HGNC'', ''hgnc.belns'') (''EGID'', ''egid.belns'') ''mirbase''
              (evidence_add_to_graph ex_as_bel ex_target_as_bel) ex_db)) = 3 \<and>
   mset (g_edges (to_bel (''HGNC'', ''hgnc.belns'') (''EGID'', ''egid.belns'') ''mirbase''
              (evidence_add_to_graph ex_as_bel ex_target_as_bel) ex_db_permuted)) =
   mset (g_edges (to_bel (''HGNC'', ''hgnc.belns'') (''EGID'', ''egid.belns'') ''mirbase''
              (evidence_add_to_graph ex_as_bel ex_target_as_bel) ex_db)) \<and>
   set (g_nodes (to_bel (''HGNC'', ''hgnc.belns'') (''EGID'', ''egid.belns'') ''mirbase''
              (evidence_add_to_graph ex_as_bel ex_target_as_bel) ex_db_permuted)) =
   set (g_nodes (to_bel (''HGNC'', ''hgnc.belns'') (''EGID'', ''egid.belns'') ''mirbase''
              (evidence_add_to_graph ex_as_bel ex_target_as_bel) ex_db))"
proof -
  have a: "mset (list_evidences ex_db_permuted) = mset (list_evidences ex_db)"
    by (simp add: list_evidences_def ex_db_permuted_def ex_db_def)
  have b: "list_evidences ex_db_permuted \<noteq> list_evidences ex_db"
    by (simp add: list_evidences_def ex_db_permuted_def ex_db_def ex_evidence1_def
        ex_evidence2_def)
  have c: "count_evidences ex_db = 3"
    by (simp add: count_evidences_def ex_db_def)
  note t = to_bel_one_edge_per_evidence
             [where hns = "(''HGNC'', ''hgnc.belns'')" and ens = "(''EGID'', ''egid.belns'')"
                and mb = "''mirbase''" and ab = ex_as_bel and tb = ex_target_as_bel
                and db = ex_db and db' = ex_db_permuted]
  let ?g = "to_bel (''HGNC'', ''hgnc.belns'') (''EGID'', ''egid.belns'') ''mirbase''
              (evidence_add_to_graph ex_as_bel ex_target_as_bel)"
  from t have "length (g_edges (?g ex_db)) = count_evidences ex_db" by blast
  with c have d: "length (g_edges (?g ex_db)) = 3" by simp
  from t a have e: "mset (g_edges (?g ex_db_permuted)) = mset (g_edges (?g ex_db))"
    "set (g_nodes (?g ex_db_permuted)) = set (g_nodes (?g ex_db))" by blast+
  from a b c d e show ?thesis by blast
qed

text \<open>
  Claim C9. On a graph with one RNA node of namespace \<open>hgnc\<close> in lower case and the
  identifier of a stored Target, the method of the Manager adds the two edges of the
  Target's Evidence records, and the function of the module enrich.py adds none,
  whatever \<open>interaction.evidence\<close> is.
\<close>

theorem enrich_rnas_implementations_differ:
  "fst (enrich_rnas ex_ven ex_as_bel ex_db (ex_graph [ex_rna_hgnc_id])) = None \<and>
   g_edges (snd (enrich_rnas ex_ven ex_as_bel ex_db (ex_graph [ex_rna_hgnc_id]))) =
     [mti_edge ex_as_bel ex_rna_hgnc_id ex_interaction1 ex_evidence1,
      mti_edge ex_as_bel ex_rna_hgnc_id ex_interaction1 ex_evidence2] \<and>
   (\<forall>evidence_of. module_enrich_rnas ex_as_bel evidence_of ex_db (ex_graph [ex_rna_hgnc_id]) =
      (None, ex_graph [ex_rna_hgnc_id]))"
  by (simp add: graph_eval mirna_eval)

text \<open>
  Claim C10. The initializer asks the module enrich for \<open>enrich_mirnas\<close> and
  \<open>enrich_rnas\<close>; enrich.py binds \<open>enrich_rnas\<close> only, so unless the star import from
  \<open>pybel.constants\<close> brings a name \<open>enrich_mirnas\<close>, importing the package raises
  \<open>ImportError\<close>.
\<close>

theorem package_init_fails:
  assumes "''enrich_mirnas'' \<notin> set star"
  shows "package_init star = Inl ImportError \<and>
         ''enrich_rnas'' \<in> set (enrich_module_names star) \<and>
         ''enrich_mirnas'' \<notin> set (enrich_module_names star)"
  using assms by (simp add: package_init_def enrich_module_names_def)

theorem package_init_fails_witness:
  "''enrich_mirnas'' \<notin> set [''FUNCTION'', ''RNA'', ''NAMESPACE'', ''NAME'', ''IDENTIFIER'',
                               ''DIRECTLY_DECREASES''] \<and>
   package_init [''FUNCTION'', ''RNA'', ''NAMESPACE'', ''NAME'', ''IDENTIFIER'',
                 ''DIRECTLY_DECREASES''] = Inl ImportError"
  using package_init_fails
          [of "[''FUNCTION'', ''RNA'', ''NAMESPACE'', ''NAME'', ''IDENTIFIER'',
                ''DIRECTLY_DECREASES'']"]
  by simp

end
